theory Spec2Isabelle
  imports Complex_Main "HOL-Library.Sublist" "HOL-Library.Log_Nat"
begin

section \<open>JavaScript values read by the discount app\<close>

subsection \<open>Numbers\<close>

text \<open>
  A JavaScript number is an IEEE double. The program never does arithmetic on the numbers
  it reads: it compares them (\<^verbatim>\<open><\<close>, \<^verbatim>\<open>>\<close>, \<^verbatim>\<open>===\<close>), tests \<^verbatim>\<open>Number.isFinite\<close> and
  converts strings with \<^verbatim>\<open>Number\<close>. A finite double is modelled by the rational it denotes
  (every double is one; \<open>-0\<close> and \<open>+0\<close> are both \<open>Fin 0\<close>, which no operation used here
  tells apart), the three other values by constructors of their own.
\<close>

datatype jsnum = NaN | PosInf | NegInf | Fin rat

fun isFinite :: "jsnum \<Rightarrow> bool" where
  "isFinite (Fin x) = True"
| "isFinite NaN = False"
| "isFinite PosInf = False"
| "isFinite NegInf = False"

text \<open>The relational operators on numbers: every comparison with \<open>NaN\<close> is false.\<close>

fun js_lt :: "jsnum \<Rightarrow> jsnum \<Rightarrow> bool" where
  "js_lt NaN b = False"
| "js_lt a NaN = False"
| "js_lt (Fin x) (Fin y) = (x < y)"
| "js_lt (Fin x) PosInf = True"
| "js_lt (Fin x) NegInf = False"
| "js_lt PosInf b = False"
| "js_lt NegInf NegInf = False"
| "js_lt NegInf b = True"

definition js_gt :: "jsnum \<Rightarrow> jsnum \<Rightarrow> bool" where
  "js_gt a b = js_lt b a"

text \<open>Strict equality \<^verbatim>\<open>===\<close> on numbers.\<close>

fun js_eq :: "jsnum \<Rightarrow> jsnum \<Rightarrow> bool" where
  "js_eq NaN b = False"
| "js_eq a NaN = False"
| "js_eq a b = (a = b)"

definition js_le :: "jsnum \<Rightarrow> jsnum \<Rightarrow> bool" where
  "js_le a b = (js_lt a b \<or> js_eq a b)"

subsection \<open>Rounding to a double\<close>

text \<open>
  \<open>pow2 e\<close> is \<open>2\<close> to the power \<open>e\<close>, \<open>binexp a\<close> the exponent \<open>e\<close> with
  \<open>2^e \<le> a < 2^(e+1)\<close> for a positive rational \<open>a\<close> (found from the bit lengths of its
  numerator and denominator), \<open>round_even\<close> rounds to the nearest
  integer with ties to the even one, and \<open>to_double\<close> is IEEE 754 round-to-nearest-even
  to binary64: 53 bits of precision, least exponent \<open>-1022\<close> (subnormals below it), and
  overflow to an infinity from \<open>2^1024\<close> on.
\<close>

definition pow2 :: "int \<Rightarrow> rat" where
  "pow2 e = (if 0 \<le> e then 2 ^ nat e else 1 / 2 ^ nat (- e))"

definition binexp :: "rat \<Rightarrow> int" where
  "binexp a =
     (let (n, d) = quotient_of a;
          k = bitlen n - bitlen d
      in if pow2 k \<le> a then k else k - 1)"

definition round_even :: "rat \<Rightarrow> int" where
  "round_even q =
     (let f = \<lfloor>q\<rfloor>; r = q - of_int f
      in if r < 1 / 2 then f
         else if 1 / 2 < r then f + 1
         else if even f then f else f + 1)"

definition to_double :: "rat \<Rightarrow> jsnum" where
  "to_double q =
     (if q = 0 then Fin 0
      else
        let a = \<bar>q\<bar>;
            e = max (binexp a) (- 1022);
            u = pow2 (e - 52);
            v = of_int (round_even (a / u)) * u
        in if pow2 1024 \<le> v then (if 0 < q then PosInf else NegInf)
           else Fin (if 0 < q then v else - v))"

subsection \<open>\<^verbatim>\<open>Number(string)\<close>\<close>

text \<open>
  \<^verbatim>\<open>Number\<close> applied to a string is ECMAScript's StringToNumber: white space is trimmed at
  both ends; the empty string is \<open>0\<close>; otherwise the text must be a StrNumericLiteral
  (an optionally signed decimal literal with optional fraction and exponent, or
  \<^verbatim>\<open>Infinity\<close>, or an unsigned \<^verbatim>\<open>0x\<close>, \<^verbatim>\<open>0o\<close>, \<^verbatim>\<open>0b\<close> integer), whose mathematical value is
  rounded to a double; anything else is \<open>NaN\<close>. Characters are the code units below 256.
\<close>

definition isStrWhiteSpaceChar :: "char \<Rightarrow> bool" where
  "isStrWhiteSpaceChar c = ((of_char c :: nat) \<in> {9, 10, 11, 12, 13, 32, 160})"

definition trimString :: "string \<Rightarrow> string" where
  "trimString s =
     rev (dropWhile isStrWhiteSpaceChar (rev (dropWhile isStrWhiteSpaceChar s)))"

definition digitValue :: "char \<Rightarrow> nat option" where
  "digitValue c =
     (let n = (of_char c :: nat)
      in if 48 \<le> n \<and> n \<le> 57 then Some (n - 48)
         else if 97 \<le> n \<and> n \<le> 102 then Some (n - 87)
         else if 65 \<le> n \<and> n \<le> 70 then Some (n - 55)
         else None)"

definition isDigitOf :: "nat \<Rightarrow> char \<Rightarrow> bool" where
  "isDigitOf base c = (case digitValue c of None \<Rightarrow> False | Some v \<Rightarrow> v < base)"

definition digitsValue :: "nat \<Rightarrow> string \<Rightarrow> int" where
  "digitsValue base ds =
     foldl (\<lambda>a c. int base * a + (case digitValue c of None \<Rightarrow> 0 | Some v \<Rightarrow> int v)) 0 ds"

text \<open>A non-empty run of digits of the base, and nothing else.\<close>

definition allDigits :: "nat \<Rightarrow> string \<Rightarrow> bool" where
  "allDigits base ds = (ds \<noteq> [] \<and> list_all (isDigitOf base) ds)"

text \<open>ExponentPart: \<^verbatim>\<open>e\<close> or \<^verbatim>\<open>E\<close>, an optional sign, digits. \<open>None\<close> when malformed.\<close>

definition exponentPart :: "string \<Rightarrow> int option" where
  "exponentPart s =
     (case s of
        [] \<Rightarrow> Some 0
      | c # r \<Rightarrow>
          if c = CHR ''e'' \<or> c = CHR ''E'' then
            (case r of
               [] \<Rightarrow> None
             | d # r' \<Rightarrow>
                 if d = CHR ''-'' then
                   (if allDigits 10 r' then Some (- digitsValue 10 r') else None)
                 else if d = CHR ''+'' then
                   (if allDigits 10 r' then Some (digitsValue 10 r') else None)
                 else if allDigits 10 r then Some (digitsValue 10 r) else None)
          else None)"

definition pow10 :: "int \<Rightarrow> rat" where
  "pow10 e = (if 0 \<le> e then 10 ^ nat e else 1 / 10 ^ nat (- e))"

text \<open>StrUnsignedDecimalLiteral: its mathematical value, or \<open>None\<close> when malformed.\<close>

definition unsignedDecimal :: "string \<Rightarrow> rat option" where
  "unsignedDecimal s =
     (let ip = takeWhile (isDigitOf 10) s;
          r = dropWhile (isDigitOf 10) s;
          hasDot = (r \<noteq> [] \<and> hd r = CHR ''.'');
          fp = (if hasDot then takeWhile (isDigitOf 10) (tl r) else []);
          r' = (if hasDot then dropWhile (isDigitOf 10) (tl r) else r)
      in if ip = [] \<and> fp = [] then None
         else
           (case exponentPart r' of
              None \<Rightarrow> None
            | Some e \<Rightarrow>
                Some ((of_int (digitsValue 10 ip)
                       + of_int (digitsValue 10 fp) / 10 ^ length fp) * pow10 e)))"

definition strDecimalLiteral :: "string \<Rightarrow> jsnum" where
  "strDecimalLiteral s =
     (let neg = (s \<noteq> [] \<and> hd s = CHR ''-'');
          body = (if s \<noteq> [] \<and> (hd s = CHR ''-'' \<or> hd s = CHR ''+'') then tl s else s)
      in if body = ''Infinity'' then (if neg then NegInf else PosInf)
         else
           (case unsignedDecimal body of
              None \<Rightarrow> NaN
            | Some v \<Rightarrow> to_double (if neg then - v else v)))"

definition nonDecimalLiteral :: "string \<Rightarrow> jsnum option" where
  "nonDecimalLiteral s =
     (let p = take 2 s; ds = drop 2 s
      in if p = ''0x'' \<or> p = ''0X'' then
           Some (if allDigits 16 ds then to_double (of_int (digitsValue 16 ds)) else NaN)
         else if p = ''0o'' \<or> p = ''0O'' then
           Some (if allDigits 8 ds then to_double (of_int (digitsValue 8 ds)) else NaN)
         else if p = ''0b'' \<or> p = ''0B'' then
           Some (if allDigits 2 ds then to_double (of_int (digitsValue 2 ds)) else NaN)
         else None)"

definition Number_of_string :: "string \<Rightarrow> jsnum" where
  "Number_of_string s =
     (let t = trimString s
      in if t = [] then Fin 0
         else
           (case nonDecimalLiteral t of
              Some n \<Rightarrow> n
            | None \<Rightarrow> strDecimalLiteral t))"

subsection \<open>Untyped values\<close>

text \<open>
  What the program receives as \<^verbatim>\<open>unknown\<close> is a JSON value from the shop metafield (or the
  result of \<^verbatim>\<open>JSON.parse\<close>), or \<^verbatim>\<open>undefined\<close> when the field is missing. An object is the
  list of its own properties.
\<close>

datatype jsval =
    JUndefined
  | JNull
  | JBool bool
  | JNum jsnum
  | JStr string
  | JArr "jsval list"
  | JObj "(string \<times> jsval) list"

fun typeof :: "jsval \<Rightarrow> string" where
  "typeof JUndefined = ''undefined''"
| "typeof JNull = ''object''"
| "typeof (JBool b) = ''boolean''"
| "typeof (JNum n) = ''number''"
| "typeof (JStr s) = ''string''"
| "typeof (JArr xs) = ''object''"
| "typeof (JObj kvs) = ''object''"

text \<open>\<open>falsy v\<close> is the value of \<^verbatim>\<open>!v\<close>.\<close>

fun falsy :: "jsval \<Rightarrow> bool" where
  "falsy JUndefined = True"
| "falsy JNull = True"
| "falsy (JBool b) = (\<not> b)"
| "falsy (JNum n) = (n = Fin 0 \<or> n = NaN)"
| "falsy (JStr s) = (s = [])"
| "falsy (JArr xs) = False"
| "falsy (JObj kvs) = False"

fun isArray :: "jsval \<Rightarrow> bool" where
  "isArray (JArr xs) = True"
| "isArray v = False"

datatype exn = TypeError | URIError

text \<open>
  Reading a property. On \<^verbatim>\<open>undefined\<close> and \<^verbatim>\<open>null\<close> it throws a TypeError. The program reads
  only the properties \<^verbatim>\<open>percentOff\<close>, \<^verbatim>\<open>products\<close>, \<^verbatim>\<open>minQty\<close>, \<^verbatim>\<open>discountId\<close> and \<^verbatim>\<open>rules\<close>:
  none of them is an index, \<^verbatim>\<open>length\<close> or a member of a prototype, so an array and a
  primitive value have none of them.
\<close>

fun get_prop :: "jsval \<Rightarrow> string \<Rightarrow> exn + jsval" where
  "get_prop JUndefined k = Inl TypeError"
| "get_prop JNull k = Inl TypeError"
| "get_prop (JObj kvs) k = Inr (case map_of kvs k of None \<Rightarrow> JUndefined | Some v \<Rightarrow> v)"
| "get_prop v k = Inr JUndefined"

text \<open>Sequencing of computations that may throw.\<close>

definition bindE :: "exn + 'a \<Rightarrow> ('a \<Rightarrow> exn + 'b) \<Rightarrow> exn + 'b" where
  "bindE m f = (case m of Inl e \<Rightarrow> Inl e | Inr x \<Rightarrow> f x)"

fun mapE :: "('a \<Rightarrow> exn + 'b) \<Rightarrow> 'a list \<Rightarrow> exn + 'b list" where
  "mapE f [] = Inr []"
| "mapE f (x # xs) = bindE (f x) (\<lambda>y. bindE (mapE f xs) (\<lambda>ys. Inr (y # ys)))"

section \<open>Rule parsing\<close>

text \<open>
  The admin routes declare \<^verbatim>\<open>DiscountConfig = { percentOff, products, minQty }\<close> and
  \<^verbatim>\<open>DiscountRule = DiscountConfig & { discountId?: string }\<close>. The rule type of the
  discount function has exactly the fields of \<open>DiscountConfig\<close>.
\<close>

record DiscountConfig =
  percentOff :: jsnum
  products :: "string list"
  minQty :: jsnum

record DiscountRule = DiscountConfig +
  discountId :: "string option"

text \<open>
  The conditional that both validators apply to \<^verbatim>\<open>percentOff\<close> and to \<^verbatim>\<open>minQty\<close>:
  a number as it is, a string through \<^verbatim>\<open>Number\<close>, anything else \<open>NaN\<close>.
\<close>

fun numberOrNaN :: "jsval \<Rightarrow> jsnum" where
  "numberOrNaN (JNum n) = n"
| "numberOrNaN (JStr s) = Number_of_string s"
| "numberOrNaN v = NaN"

text \<open>The filter \<^verbatim>\<open>typeof id === "string" && id.length > 0\<close> on the products array.\<close>

fun nonEmptyStrings :: "jsval list \<Rightarrow> string list" where
  "nonEmptyStrings [] = []"
| "nonEmptyStrings (JStr s # vs) =
     (if 0 < length s then s # nonEmptyStrings vs else nonEmptyStrings vs)"
| "nonEmptyStrings (v # vs) = nonEmptyStrings vs"

fun stringOrUndefined :: "jsval \<Rightarrow> string option" where
  "stringOrUndefined (JStr s) = Some s"
| "stringOrUndefined v = None"

text \<open>
  \<^verbatim>\<open>parseRule\<close> of the admin routes (the create route and the edit route hold the same
  text). \<open>Inr None\<close> is the result \<^verbatim>\<open>null\<close>.
\<close>

definition parseRule :: "jsval \<Rightarrow> exn + DiscountRule option" where
  "parseRule raw =
     (if falsy raw \<or> typeof raw \<noteq> ''object'' then Inr None
      else
        bindE (get_prop raw ''percentOff'') (\<lambda>rawPercent.
          let percentOff = numberOrNaN rawPercent
          in if \<not> isFinite percentOff then Inr None
             else
               bindE (get_prop raw ''products'') (\<lambda>rawProducts.
                 case rawProducts of
                   JArr elems \<Rightarrow>
                     let products = nonEmptyStrings elems
                     in bindE (get_prop raw ''minQty'') (\<lambda>rawMinQty.
                          let minQty = numberOrNaN rawMinQty
                          in if \<not> isFinite minQty \<or> js_lt minQty (Fin 2) then Inr None
                             else
                               bindE (get_prop raw ''discountId'') (\<lambda>d.
                                 Inr (Some \<lparr>percentOff = percentOff, products = products,
                                            minQty = minQty,
                                            discountId = stringOrUndefined d\<rparr>)))
                 | _ \<Rightarrow> Inr None)))"

text \<open>
  \<^verbatim>\<open>parseRule\<close> of the discount function
  (\<^verbatim>\<open>extensions/buy-2-get-free/src/cart_lines_discounts_generate_run.ts\<close>).
\<close>

definition parseRule_fn :: "jsval \<Rightarrow> exn + DiscountConfig option" where
  "parseRule_fn raw =
     (if falsy raw \<or> typeof raw \<noteq> ''object'' then Inr None
      else
        bindE (get_prop raw ''percentOff'') (\<lambda>percentOffValue.
          let percentOff = numberOrNaN percentOffValue
          in if \<not> isFinite percentOff \<or> js_lt percentOff (Fin 1) \<or> js_gt percentOff (Fin 80)
             then Inr None
             else
               bindE (get_prop raw ''products'') (\<lambda>productsValue.
                 case productsValue of
                   JArr elems \<Rightarrow>
                     let products = nonEmptyStrings elems
                     in if length products = 0 then Inr None
                        else
                          bindE (get_prop raw ''minQty'') (\<lambda>minQtyValue.
                            let minQty = numberOrNaN minQtyValue
                            in if \<not> isFinite minQty \<or> js_lt minQty (Fin 2) then Inr None
                               else Inr (Some \<lparr>percentOff = percentOff, products = products,
                                               minQty = minQty\<rparr>))
                 | _ \<Rightarrow> Inr None)))"

text \<open>
  The body shared by \<^verbatim>\<open>parseRules\<close> and \<^verbatim>\<open>parseDiscountRules\<close>, for a validator \<open>pr\<close>.
  \<^verbatim>\<open>JSON.parse\<close> belongs to the runtime: it is the parameter \<open>JSON_parse\<close>, whose result
  \<open>None\<close> stands for the exception that the \<^verbatim>\<open>catch\<close> turns into \<^verbatim>\<open>[]\<close>.
  \<open>decodedValue\<close> is the step \<^verbatim>\<open>if (typeof raw === "string") raw = JSON.parse(raw)\<close>,
  \<open>keepRules\<close> is \<^verbatim>\<open>.filter(rule => Boolean(rule))\<close>.
\<close>

fun keepRules :: "'a option list \<Rightarrow> 'a list" where
  "keepRules [] = []"
| "keepRules (None # rs) = keepRules rs"
| "keepRules (Some r # rs) = r # keepRules rs"

definition decodedValue :: "(string \<Rightarrow> jsval option) \<Rightarrow> jsval \<Rightarrow> jsval option" where
  "decodedValue JSON_parse raw = (case raw of JStr s \<Rightarrow> JSON_parse s | _ \<Rightarrow> Some raw)"

definition parseRulesWith ::
  "(jsval \<Rightarrow> exn + 'a option) \<Rightarrow> (string \<Rightarrow> jsval option) \<Rightarrow> jsval \<Rightarrow> exn + 'a list" where
  "parseRulesWith pr JSON_parse raw0 =
     (case decodedValue JSON_parse raw0 of
        None \<Rightarrow> Inr []
      | Some raw \<Rightarrow>
          if falsy raw \<or> typeof raw \<noteq> ''object'' then Inr []
          else
            bindE (get_prop raw ''rules'') (\<lambda>rulesValue.
              case rulesValue of
                JArr elems \<Rightarrow> bindE (mapE pr elems) (\<lambda>rs. Inr (keepRules rs))
              | _ \<Rightarrow>
                  bindE (pr raw) (\<lambda>legacyRule.
                    Inr (case legacyRule of Some r \<Rightarrow> [r] | None \<Rightarrow> []))))"

definition parseRules :: "(string \<Rightarrow> jsval option) \<Rightarrow> jsval \<Rightarrow> exn + DiscountRule list" where
  "parseRules JSON_parse raw = parseRulesWith parseRule JSON_parse raw"

section \<open>The discount function\<close>

datatype Merchandise = ProductVariant string | CustomProduct

record CartLine =
  line_id :: string
  quantity :: int
  merchandise :: Merchandise

record Shop =
  metafield :: "jsval option"

record CartInput =
  cart_lines :: "CartLine list"
  shop :: "Shop option"

text \<open>\<^verbatim>\<open>input.shop?.metafield?.jsonValue\<close>\<close>

definition jsonValue_of :: "CartInput \<Rightarrow> jsval" where
  "jsonValue_of input =
     (case shop input of
        None \<Rightarrow> JUndefined
      | Some s \<Rightarrow> (case metafield s of None \<Rightarrow> JUndefined | Some v \<Rightarrow> v))"

definition parseDiscountRules ::
  "(string \<Rightarrow> jsval option) \<Rightarrow> CartInput \<Rightarrow> exn + DiscountConfig list" where
  "parseDiscountRules JSON_parse input =
     parseRulesWith parseRule_fn JSON_parse (jsonValue_of input)"

text \<open>
  The loop over the rules inside the filter callback of \<^verbatim>\<open>cartLinesDiscountsGenerateRun\<close>,
  for a line of product \<open>pid\<close>; the last argument is the variable \<^verbatim>\<open>bestPercent\<close>.
\<close>

fun bestPercentLoop :: "CartLine \<Rightarrow> string \<Rightarrow> DiscountConfig list \<Rightarrow> jsnum \<Rightarrow> jsnum" where
  "bestPercentLoop line pid [] bestPercent = bestPercent"
| "bestPercentLoop line pid (rule # rules) bestPercent =
     (if js_lt (Fin (of_int (quantity line))) (minQty rule)
        then bestPercentLoop line pid rules bestPercent
      else if pid \<notin> set (products rule)
        then bestPercentLoop line pid rules bestPercent
      else if js_gt (percentOff rule) bestPercent
        then bestPercentLoop line pid rules (percentOff rule)
      else bestPercentLoop line pid rules bestPercent)"

text \<open>
  \<^verbatim>\<open>input.cart.lines.filter(...)\<close>: the lines kept and the map \<^verbatim>\<open>linePercentMap\<close> that the
  callback fills on the way.
\<close>

fun filterLines ::
  "DiscountConfig list \<Rightarrow> CartLine list \<Rightarrow> (string \<rightharpoonup> jsnum)
     \<Rightarrow> CartLine list \<times> (string \<rightharpoonup> jsnum)" where
  "filterLines rules [] linePercentMap = ([], linePercentMap)"
| "filterLines rules (line # lines) linePercentMap =
     (case merchandise line of
        CustomProduct \<Rightarrow> filterLines rules lines linePercentMap
      | ProductVariant pid \<Rightarrow>
          let bestPercent = bestPercentLoop line pid rules (Fin 0)
          in if js_eq bestPercent (Fin 0) then filterLines rules lines linePercentMap
             else
               let (kept, m) = filterLines rules lines (linePercentMap(line_id line \<mapsto> bestPercent))
               in (line # kept, m))"

record Candidate =
  targets :: "string list"
  percentage :: jsnum

datatype ProductDiscountSelectionStrategy = StrategyAll | StrategyFirst | StrategyMaximum

datatype CartOperation = ProductDiscountsAdd ProductDiscountSelectionStrategy "Candidate list"

record RunResult =
  operations :: "CartOperation list"

text \<open>The constant \<^verbatim>\<open>candidates\<close>: the filter, then the map that reads \<^verbatim>\<open>linePercentMap\<close>.\<close>

definition discountCandidates :: "DiscountConfig list \<Rightarrow> CartLine list \<Rightarrow> Candidate list" where
  "discountCandidates rules lines =
     (let (kept, linePercentMap) = filterLines rules lines Map.empty
      in map (\<lambda>line. \<lparr>targets = [line_id line],
                       percentage = (case linePercentMap (line_id line) of
                                       Some v \<Rightarrow> v | None \<Rightarrow> Fin 0)\<rparr>) kept)"

definition cartLinesDiscountsGenerateRun ::
  "(string \<Rightarrow> jsval option) \<Rightarrow> CartInput \<Rightarrow> exn + RunResult" where
  "cartLinesDiscountsGenerateRun JSON_parse input =
     bindE (parseDiscountRules JSON_parse input) (\<lambda>rules.
       if length rules = 0 then Inr \<lparr>operations = []\<rparr>
       else
         let candidates = discountCandidates rules (cart_lines input)
         in Inr \<lparr>operations =
                   (if length candidates = 0 then []
                    else [ProductDiscountsAdd StrategyAll candidates])\<rparr>)"

section \<open>Writing a rule back: the admin actions\<close>

text \<open>\<open>noId d\<close> is \<^verbatim>\<open>!d\<close> for an optional string: \<^verbatim>\<open>undefined\<close> and the empty string.\<close>

fun noId :: "string option \<Rightarrow> bool" where
  "noId None = True"
| "noId (Some s) = (s = [])"

text \<open>The constant \<^verbatim>\<open>updatedRules\<close> of the create action.\<close>

definition updatedRules_create ::
  "DiscountRule list \<Rightarrow> string \<Rightarrow> string list \<Rightarrow> jsnum \<Rightarrow> DiscountRule list" where
  "updatedRules_create existingRules newId newProducts newPercentOff =
     filter (\<lambda>rule. noId (discountId rule) \<or> discountId rule \<noteq> Some newId) existingRules
     @ [\<lparr>percentOff = newPercentOff, products = newProducts, minQty = Fin 2,
         discountId = Some newId\<rparr>]"

text \<open>
  The constant \<^verbatim>\<open>updatedRules\<close> of the edit action. \<^verbatim>\<open>discountNodeId ? a : b\<close> tests
  truthiness, \<^verbatim>\<open>discountNodeId ?? updateId\<close> only \<^verbatim>\<open>undefined\<close>.
\<close>

definition updatedRules_edit ::
  "DiscountRule list \<Rightarrow> string option \<Rightarrow> string option \<Rightarrow> string list \<Rightarrow> jsnum
     \<Rightarrow> DiscountRule list" where
  "updatedRules_edit existingRules discountNodeId updateId newProducts newPercentOff =
     filter (\<lambda>rule. noId (discountId rule) \<or>
                    (if \<not> noId discountNodeId then discountId rule \<noteq> discountNodeId
                     else discountId rule \<noteq> updateId)) existingRules
     @ [\<lparr>percentOff = newPercentOff, products = newProducts, minQty = Fin 2,
         discountId = (case discountNodeId of None \<Rightarrow> updateId | Some n \<Rightarrow> Some n)\<rparr>]"

text \<open>
  \<^verbatim>\<open>normalizeDiscountIds\<close>. \<^verbatim>\<open>decodeURIComponent\<close> belongs to the runtime and is a parameter;
  its result \<open>None\<close> is the URIError it throws. \<open>lastSegment\<close> is \<^verbatim>\<open>split("/").pop()\<close>.
\<close>

definition lastSegment :: "string \<Rightarrow> string" where
  "lastSegment s = rev (takeWhile (\<lambda>c. c \<noteq> CHR ''/'') (rev s))"

definition normalizeDiscountIds ::
  "(string \<Rightarrow> string option) \<Rightarrow> string option \<Rightarrow> exn + (string option \<times> string option)" where
  "normalizeDiscountIds decodeURIComponent rawId =
     (case rawId of
        None \<Rightarrow> Inr (None, None)
      | Some r \<Rightarrow>
          if r = [] then Inr (None, None)
          else
            (case decodeURIComponent r of
               None \<Rightarrow> Inl URIError
             | Some decoded \<Rightarrow>
                 if prefix ''gid://'' decoded then
                   (if sublist ''/DiscountNode/'' decoded then Inr (Some decoded, Some decoded)
                    else if sublist ''/DiscountAutomaticApp/'' decoded then
                      (let numeric = lastSegment decoded
                       in Inr (Some (if numeric \<noteq> [] then ''gid://shopify/DiscountNode/'' @ numeric
                                     else decoded),
                               Some decoded))
                    else Inr (Some decoded, Some decoded))
                 else if allDigits 10 decoded then
                   Inr (Some (''gid://shopify/DiscountNode/'' @ decoded),
                        Some (''gid://shopify/DiscountAutomaticApp/'' @ decoded))
                 else Inr (Some decoded, Some decoded)))"

text \<open>
  The two actions up to the value they hand to \<^verbatim>\<open>metafieldsSet\<close>. The form fields, the
  route parameter (\<^verbatim>\<open>params.functionId\<close> for the create action, \<^verbatim>\<open>params.id\<close> for the edit
  action) and the answers of the Admin API are the fields of the request; a form field is
  a string or is missing. \<open>Rejected\<close> is an early \<^verbatim>\<open>return data(..., { status })\<close>,
  \<open>Stored\<close> carries \<^verbatim>\<open>updatedRules\<close>.
\<close>

datatype ActionResult = Rejected nat "string list" | Stored "DiscountRule list"

record ActionRequest =
  form_title :: "string option"
  form_percentOff :: "string option"
  form_products :: "string list"
  route_param :: "string option"
  mutation_userErrors :: "string list"
  created_discountId :: "string option"
  shop_id :: "string option"
  shop_jsonValue :: jsval

definition formErrors :: "string \<Rightarrow> jsnum \<Rightarrow> string list \<Rightarrow> string list" where
  "formErrors title' percentOff' products' =
     (if title' = [] then [''Title is required.''] else [])
     @ (if \<not> isFinite percentOff' \<or> js_lt percentOff' (Fin 1) \<or> js_gt percentOff' (Fin 80)
        then [''Percent off must be between 1 and 80.''] else [])
     @ (if length products' = 0 then [''Select at least one product.''] else [])"

definition create_action ::
  "(string \<Rightarrow> jsval option) \<Rightarrow> ActionRequest \<Rightarrow> exn + ActionResult" where
  "create_action JSON_parse rq =
     (let title' = trimString (case form_title rq of None \<Rightarrow> [] | Some t \<Rightarrow> t);
          percentOffRaw = trimString (case form_percentOff rq of None \<Rightarrow> [] | Some t \<Rightarrow> t);
          products' = form_products rq;
          percentOff' = Number_of_string percentOffRaw;
          functionId = (case route_param rq of None \<Rightarrow> [] | Some f \<Rightarrow> f);
          errors = formErrors title' percentOff' products'
                   @ (if functionId = [] then [''Missing function ID in route parameters.'']
                      else [])
      in if 0 < length errors then Inr (Rejected 400 errors)
         else if 0 < length (mutation_userErrors rq)
           then Inr (Rejected 400 (mutation_userErrors rq))
         else
           (case created_discountId rq of
              None \<Rightarrow> Inr (Rejected 500 [''Discount created, but no ID was returned.''])
            | Some newId \<Rightarrow>
                if newId = []
                  then Inr (Rejected 500 [''Discount created, but no ID was returned.''])
                else
                  bindE (parseRules JSON_parse (shop_jsonValue rq)) (\<lambda>existingRules.
                    if noId (shop_id rq)
                      then Inr (Rejected 500 [''Unable to resolve shop ID.''])
                    else
                      Inr (Stored (updatedRules_create existingRules newId products'
                                     percentOff')))))"

definition edit_action ::
  "(string \<Rightarrow> jsval option) \<Rightarrow> (string \<Rightarrow> string option) \<Rightarrow> ActionRequest
     \<Rightarrow> exn + ActionResult" where
  "edit_action JSON_parse decodeURIComponent rq =
     (let title' = trimString (case form_title rq of None \<Rightarrow> [] | Some t \<Rightarrow> t);
          percentOffRaw = trimString (case form_percentOff rq of None \<Rightarrow> [] | Some t \<Rightarrow> t);
          products' = form_products rq;
          percentOff' = Number_of_string percentOffRaw
      in bindE (normalizeDiscountIds decodeURIComponent (route_param rq))
           (\<lambda>(discountNodeId, updateId).
              let errors = formErrors title' percentOff' products'
                           @ (if noId updateId
                              then [''Missing discount ID in route parameters.''] else [])
              in if 0 < length errors then Inr (Rejected 400 errors)
                 else
                   bindE (parseRules JSON_parse (shop_jsonValue rq)) (\<lambda>existingRules.
                     if noId (shop_id rq)
                       then Inr (Rejected 500 [''Unable to resolve shop ID.''])
                     else if 0 < length (mutation_userErrors rq)
                       then Inr (Rejected 400 (mutation_userErrors rq))
                     else
                       Inr (Stored (updatedRules_edit existingRules discountNodeId updateId
                                      products' percentOff')))))"

section \<open>Auxiliary notions for the statements\<close>

text \<open>
  \<open>prop_value v k\<close> is the value of \<^verbatim>\<open>v.k\<close> where the read does not throw.
  \<open>parseRule_result\<close> and \<open>parseRule_fn_result\<close> are the values the two validators return.
\<close>

definition prop_value :: "jsval \<Rightarrow> string \<Rightarrow> jsval" where
  "prop_value v k = (case get_prop v k of Inl e \<Rightarrow> JUndefined | Inr x \<Rightarrow> x)"

definition parseRule_result :: "jsval \<Rightarrow> DiscountRule option" where
  "parseRule_result raw = (case parseRule raw of Inl e \<Rightarrow> None | Inr r \<Rightarrow> r)"

definition parseRule_fn_result :: "jsval \<Rightarrow> DiscountConfig option" where
  "parseRule_fn_result raw = (case parseRule_fn raw of Inl e \<Rightarrow> None | Inr r \<Rightarrow> r)"

text \<open>
  A fragment of \<^verbatim>\<open>JSON.parse\<close> for the examples: the four texts it decodes and their
  values; the examples give it no other text that \<^verbatim>\<open>JSON.parse\<close> accepts.
\<close>

definition JSON_parse_sample :: "string \<Rightarrow> jsval option" where
  "JSON_parse_sample s =
     (if s = ''null'' then Some JNull
      else if s = ''12'' then Some (JNum (Fin 12))
      else if s = ''[]'' then Some (JArr [])
      else if s = ''{}'' then Some (JObj [])
      else None)"

text \<open>
  The rules of the specification's example, as stored JSON, and a rule with
  \<^verbatim>\<open>minQty\<close> \<open>1\<close>.
\<close>

definition ruleA_json :: jsval where
  "ruleA_json = JObj [(''percentOff'', JNum (Fin 10)), (''products'', JArr [JStr ''P1'']),
                      (''minQty'', JNum (Fin 2))]"

definition ruleB_json :: jsval where
  "ruleB_json = JObj [(''percentOff'', JNum (Fin 25)), (''products'', JArr [JStr ''P1'']),
                      (''minQty'', JNum (Fin 3))]"

definition minQty1_json :: jsval where
  "minQty1_json = JObj [(''percentOff'', JNum (Fin 10)), (''products'', JArr [JStr ''P1'']),
                        (''minQty'', JNum (Fin 1))]"

definition ruleA :: DiscountConfig where
  "ruleA = \<lparr>percentOff = Fin 10, products = [''P1''], minQty = Fin 2\<rparr>"

definition ruleB :: DiscountConfig where
  "ruleB = \<lparr>percentOff = Fin 25, products = [''P1''], minQty = Fin 3\<rparr>"

definition shopWith :: "jsval \<Rightarrow> CartLine list \<Rightarrow> CartInput" where
  "shopWith v ls = \<lparr>cart_lines = ls, shop = Some \<lparr>metafield = Some v\<rparr>\<rparr>"

text \<open>
  Stored rules used as examples: a percentage of \<open>90\<close>, a product array with no usable
  entry, a single rule that also has a \<^verbatim>\<open>rules\<close> array, and an empty \<^verbatim>\<open>percentOff\<close> string.
\<close>

definition percent90_json :: jsval where
  "percent90_json = JObj [(''percentOff'', JNum (Fin 90)), (''products'', JArr [JStr ''P1'']),
                          (''minQty'', JNum (Fin 2))]"

definition noProducts_json :: jsval where
  "noProducts_json = JObj [(''percentOff'', JNum (Fin 10)),
                           (''products'', JArr [JNum (Fin 5), JStr []]),
                           (''minQty'', JNum (Fin 2))]"

definition legacyWithRules_json :: jsval where
  "legacyWithRules_json = JObj [(''percentOff'', JNum (Fin 10)), (''products'', JArr [JStr ''P1'']),
                                (''minQty'', JNum (Fin 2)), (''rules'', JArr [])]"

definition emptyPercent_json :: jsval where
  "emptyPercent_json = JObj [(''percentOff'', JStr []), (''products'', JArr [JStr ''P1'']),
                             (''minQty'', JNum (Fin 2))]"

text \<open>Stored rules of three discounts, for the examples of the store update.\<close>

definition storedRules :: "DiscountRule list" where
  "storedRules =
     [\<lparr>percentOff = Fin 10, products = [''P1''], minQty = Fin 2, discountId = Some ''d1''\<rparr>,
      \<lparr>percentOff = Fin 15, products = [''P2''], minQty = Fin 2, discountId = None\<rparr>,
      \<lparr>percentOff = Fin 20, products = [''P3''], minQty = Fin 2, discountId = Some ''d2''\<rparr>]"

text \<open>A request of the admin form, with the answers of the Admin API, for the examples.\<close>

definition sampleRequest :: ActionRequest where
  "sampleRequest =
     \<lparr>form_title = Some ''Buy 2'', form_percentOff = Some '' 15'', form_products = [''P1''],
      route_param = Some ''77'', mutation_userErrors = [], created_discountId = Some ''d1'',
      shop_id = Some ''gid://shopify/Shop/1'',
      shop_jsonValue = JObj [(''rules'', JArr [ruleA_json])]\<rparr>"

text \<open>
  \<open>validated\<close>: the conditions under which \<^verbatim>\<open>parseRule\<close> of the discount function returns a
  rule, as properties of the rule returned.
\<close>

definition validated :: "DiscountConfig \<Rightarrow> bool" where
  "validated rule =
     (isFinite (percentOff rule) \<and> \<not> js_lt (percentOff rule) (Fin 1)
      \<and> \<not> js_gt (percentOff rule) (Fin 80) \<and> products rule \<noteq> []
      \<and> isFinite (minQty rule) \<and> \<not> js_lt (minQty rule) (Fin 2))"

text \<open>
  The rule selection in the words of the specification (section 4.2), to be compared with
  the code: the candidates of a line of product \<open>pid\<close> are the rules with
  \<^verbatim>\<open>minQty <= line.quantity\<close>, with \<open>pid\<close> among their products and with \<^verbatim>\<open>percentOff\<close> finite
  and within \<open>[1, 80]\<close>; the rule chosen is a candidate of greatest \<^verbatim>\<open>percentOff\<close>, the first
  such in rule order; a line with no product or no candidate gets nothing.
\<close>

definition spec_candidate :: "CartLine \<Rightarrow> string \<Rightarrow> DiscountConfig \<Rightarrow> bool" where
  "spec_candidate line pid rule =
     (js_le (minQty rule) (Fin (of_int (quantity line))) \<and> pid \<in> set (products rule)
      \<and> isFinite (percentOff rule) \<and> js_le (Fin 1) (percentOff rule)
      \<and> js_le (percentOff rule) (Fin 80))"

fun spec_best :: "DiscountConfig list \<Rightarrow> DiscountConfig option" where
  "spec_best [] = None"
| "spec_best (r # rs) =
     (case spec_best rs of
        None \<Rightarrow> Some r
      | Some r' \<Rightarrow> if js_lt (percentOff r) (percentOff r') then Some r' else Some r)"

definition spec_lineDiscount :: "DiscountConfig list \<Rightarrow> CartLine \<Rightarrow> Candidate option" where
  "spec_lineDiscount rules line =
     (case merchandise line of
        CustomProduct \<Rightarrow> None
      | ProductVariant pid \<Rightarrow>
          (case spec_best (filter (spec_candidate line pid) rules) of
             None \<Rightarrow> None
           | Some r \<Rightarrow> Some \<lparr>targets = [line_id line], percentage = percentOff r\<rparr>))"

definition spec_selectDiscounts :: "DiscountConfig list \<Rightarrow> CartLine list \<Rightarrow> Candidate list" where
  "spec_selectDiscounts rules lines = List.map_filter (spec_lineDiscount rules) lines"

text \<open>A cart line of product \<^verbatim>\<open>P1\<close>, for the specification's example.\<close>

definition lineP1 :: "int \<Rightarrow> CartLine" where
  "lineP1 q = \<lparr>line_id = ''L1'', quantity = q, merchandise = ProductVariant ''P1''\<rparr>"

section \<open>Properties of the parsers\<close>

lemma bindE_simps [simp]: "bindE (Inr x) f = f x" "bindE (Inl e) f = Inl e"
  by (simp_all add: bindE_def)

lemma get_prop_object:
  "\<not> falsy raw \<Longrightarrow> typeof raw = ''object'' \<Longrightarrow> get_prop raw k = Inr (prop_value raw k)"
  by (cases raw) (simp_all add: prop_value_def)

text \<open>
  Behind the guard \<^verbatim>\<open>!raw || typeof raw !== "object"\<close> no property read throws, so each
  validator returns, and its value is a function of the properties it reads.
\<close>

lemma parseRule_value:
  "parseRule raw =
     Inr (if falsy raw \<or> typeof raw \<noteq> ''object'' then None
          else if \<not> isFinite (numberOrNaN (prop_value raw ''percentOff'')) then None
          else (case prop_value raw ''products'' of
                  JArr elems \<Rightarrow>
                    if \<not> isFinite (numberOrNaN (prop_value raw ''minQty''))
                       \<or> js_lt (numberOrNaN (prop_value raw ''minQty'')) (Fin 2) then None
                    else Some \<lparr>percentOff = numberOrNaN (prop_value raw ''percentOff''),
                               products = nonEmptyStrings elems,
                               minQty = numberOrNaN (prop_value raw ''minQty''),
                               discountId = stringOrUndefined (prop_value raw ''discountId'')\<rparr>
                | _ \<Rightarrow> None))"
  by (auto simp: parseRule_def get_prop_object Let_def split: jsval.splits)

lemma parseRule_fn_value:
  "parseRule_fn raw =
     Inr (if falsy raw \<or> typeof raw \<noteq> ''object'' then None
          else if \<not> isFinite (numberOrNaN (prop_value raw ''percentOff''))
                  \<or> js_lt (numberOrNaN (prop_value raw ''percentOff'')) (Fin 1)
                  \<or> js_gt (numberOrNaN (prop_value raw ''percentOff'')) (Fin 80) then None
          else (case prop_value raw ''products'' of
                  JArr elems \<Rightarrow>
                    if nonEmptyStrings elems = [] then None
                    else if \<not> isFinite (numberOrNaN (prop_value raw ''minQty''))
                       \<or> js_lt (numberOrNaN (prop_value raw ''minQty'')) (Fin 2) then None
                    else Some \<lparr>percentOff = numberOrNaN (prop_value raw ''percentOff''),
                               products = nonEmptyStrings elems,
                               minQty = numberOrNaN (prop_value raw ''minQty'')\<rparr>
                | _ \<Rightarrow> None))"
  by (auto simp: parseRule_fn_def get_prop_object Let_def split: jsval.splits)

lemma parseRule_returns: "parseRule raw = Inr (parseRule_result raw)"
  by (simp add: parseRule_result_def parseRule_value)

lemma parseRule_fn_returns: "parseRule_fn raw = Inr (parseRule_fn_result raw)"
  by (simp add: parseRule_fn_result_def parseRule_fn_value)

lemma parseRule_result_None: "parseRule v = Inr None \<Longrightarrow> parseRule_result v = None"
  by (simp add: parseRule_result_def)

lemma parseRule_fn_result_None: "parseRule_fn v = Inr None \<Longrightarrow> parseRule_fn_result v = None"
  by (simp add: parseRule_fn_result_def)

lemma mapE_Inr: "(\<And>x. x \<in> set xs \<Longrightarrow> f x = Inr (g x)) \<Longrightarrow> mapE f xs = Inr (map g xs)"
  by (induction xs) simp_all

text \<open>What the set parser returns for a validator \<open>pr\<close> that always returns \<open>g\<close>.\<close>

lemma parseRulesWith_value:
  assumes "\<And>v. pr v = Inr (g v)"
  shows "parseRulesWith pr JSON_parse raw =
     Inr (case decodedValue JSON_parse raw of
            None \<Rightarrow> []
          | Some v \<Rightarrow>
              if falsy v \<or> typeof v \<noteq> ''object'' then []
              else (case prop_value v ''rules'' of
                      JArr elems \<Rightarrow> keepRules (map g elems)
                    | _ \<Rightarrow> (case g v of Some r \<Rightarrow> [r] | None \<Rightarrow> [])))"
proof -
  have m: "mapE pr elems = Inr (map g elems)" for elems
    by (rule mapE_Inr) (rule assms)
  show ?thesis
    by (simp add: parseRulesWith_def get_prop_object assms m split: option.splits jsval.splits)
qed

lemmas parseRules_value =
  parseRulesWith_value [of parseRule parseRule_result, OF parseRule_returns, folded parseRules_def]

lemmas parseDiscountRules_value =
  parseRulesWith_value [of parseRule_fn parseRule_fn_result, OF parseRule_fn_returns]

text \<open>
  C5. \<^verbatim>\<open>parseRules\<close> (admin) and \<^verbatim>\<open>parseDiscountRules\<close> (discount function) return a list of
  rules for every input value and every behaviour of \<^verbatim>\<open>JSON.parse\<close>: no property read
  throws. The list is empty when the input is text that does not decode, when the
  (decoded) value is not an object, and when it has no \<^verbatim>\<open>rules\<close> array and is not a valid
  single rule either.
\<close>

theorem parseRuleSet_total:
  "(\<exists>rules. parseRules JSON_parse raw = Inr rules \<and>
      (decodedValue JSON_parse raw = None \<longrightarrow> rules = []) \<and>
      (\<forall>v. decodedValue JSON_parse raw = Some v \<and> (falsy v \<or> typeof v \<noteq> ''object'')
           \<longrightarrow> rules = []) \<and>
      (\<forall>v. decodedValue JSON_parse raw = Some v \<and> \<not> isArray (prop_value v ''rules'')
             \<and> parseRule v = Inr None \<longrightarrow> rules = []))
   \<and>
   (\<exists>rules. parseDiscountRules JSON_parse input = Inr rules \<and>
      (decodedValue JSON_parse (jsonValue_of input) = None \<longrightarrow> rules = []) \<and>
      (\<forall>v. decodedValue JSON_parse (jsonValue_of input) = Some v
             \<and> (falsy v \<or> typeof v \<noteq> ''object'') \<longrightarrow> rules = []) \<and>
      (\<forall>v. decodedValue JSON_parse (jsonValue_of input) = Some v
             \<and> \<not> isArray (prop_value v ''rules'') \<and> parseRule_fn v = Inr None
           \<longrightarrow> rules = []))"
proof (intro conjI)
  show "\<exists>rules. parseRules JSON_parse raw = Inr rules \<and>
      (decodedValue JSON_parse raw = None \<longrightarrow> rules = []) \<and>
      (\<forall>v. decodedValue JSON_parse raw = Some v \<and> (falsy v \<or> typeof v \<noteq> ''object'')
           \<longrightarrow> rules = []) \<and>
      (\<forall>v. decodedValue JSON_parse raw = Some v \<and> \<not> isArray (prop_value v ''rules'')
             \<and> parseRule v = Inr None \<longrightarrow> rules = [])"
    by (auto simp: parseRules_value parseRule_result_None split: jsval.splits)
  show "\<exists>rules. parseDiscountRules JSON_parse input = Inr rules \<and>
      (decodedValue JSON_parse (jsonValue_of input) = None \<longrightarrow> rules = []) \<and>
      (\<forall>v. decodedValue JSON_parse (jsonValue_of input) = Some v
             \<and> (falsy v \<or> typeof v \<noteq> ''object'') \<longrightarrow> rules = []) \<and>
      (\<forall>v. decodedValue JSON_parse (jsonValue_of input) = Some v
             \<and> \<not> isArray (prop_value v ''rules'') \<and> parseRule_fn v = Inr None
           \<longrightarrow> rules = [])"
    by (auto simp: parseDiscountRules_def parseDiscountRules_value parseRule_fn_result_None
        split: jsval.splits)
qed

theorem parseRuleSet_total_witness:
  "parseRules JSON_parse_sample (JStr ''{'') = Inr []
   \<and> parseRules JSON_parse_sample (JStr ''12'') = Inr []
   \<and> parseRules JSON_parse_sample (JObj [(''percentOff'', JBool True)]) = Inr []
   \<and> parseDiscountRules JSON_parse_sample
        \<lparr>cart_lines = [], shop = Some \<lparr>metafield = Some (JStr ''{'')\<rparr>\<rparr> = Inr []
   \<and> parseDiscountRules JSON_parse_sample \<lparr>cart_lines = [], shop = None\<rparr> = Inr []
   \<and> parseDiscountRules JSON_parse_sample
        \<lparr>cart_lines = [], shop = Some \<lparr>metafield = Some (JArr [JNull])\<rparr>\<rparr> = Inr []"
proof -
  have d1: "decodedValue JSON_parse_sample (JStr ''{'') = None"
    by (simp add: decodedValue_def JSON_parse_sample_def)
  have d2: "decodedValue JSON_parse_sample (JStr ''12'') = Some (JNum (Fin 12))"
    by (simp add: decodedValue_def JSON_parse_sample_def)
  have d3: "decodedValue JSON_parse_sample (JObj [(''percentOff'', JBool True)])
              = Some (JObj [(''percentOff'', JBool True)])"
    by (simp add: decodedValue_def)
  have p3: "parseRule (JObj [(''percentOff'', JBool True)]) = Inr None"
    by (simp add: parseRule_def)
  have r3: "\<not> isArray (prop_value (JObj [(''percentOff'', JBool True)]) ''rules'')"
    by (simp add: prop_value_def)
  have j4: "jsonValue_of \<lparr>cart_lines = [], shop = Some \<lparr>metafield = Some (JStr ''{'')\<rparr>\<rparr>
              = JStr ''{''"
    by (simp add: jsonValue_of_def)
  have j5: "jsonValue_of \<lparr>cart_lines = [], shop = None\<rparr> = JUndefined"
    by (simp add: jsonValue_of_def)
  have d5: "decodedValue JSON_parse_sample JUndefined = Some JUndefined"
    by (simp add: decodedValue_def)
  have j6: "jsonValue_of \<lparr>cart_lines = [], shop = Some \<lparr>metafield = Some (JArr [JNull])\<rparr>\<rparr>
              = JArr [JNull]"
    by (simp add: jsonValue_of_def)
  have d6: "decodedValue JSON_parse_sample (JArr [JNull]) = Some (JArr [JNull])"
    by (simp add: decodedValue_def)
  have p6: "parseRule_fn (JArr [JNull]) = Inr None"
    by (simp add: parseRule_fn_def)
  have r6: "\<not> isArray (prop_value (JArr [JNull]) ''rules'')"
    by (simp add: prop_value_def)
  show ?thesis
    using parseRuleSet_total [of JSON_parse_sample "JStr ''{''"
        "\<lparr>cart_lines = [], shop = Some \<lparr>metafield = Some (JStr ''{'')\<rparr>\<rparr>"]
      parseRuleSet_total [of JSON_parse_sample "JStr ''12''" "\<lparr>cart_lines = [], shop = None\<rparr>"]
      parseRuleSet_total [of JSON_parse_sample "JObj [(''percentOff'', JBool True)]"
        "\<lparr>cart_lines = [], shop = Some \<lparr>metafield = Some (JArr [JNull])\<rparr>\<rparr>"]
    unfolding j4 j5 j6 d1 d2 d3 d5 d6
    using p3 r3 p6 r6 by auto
qed

subsection \<open>The minimum quantity\<close>

lemma keepRules_set: "set (keepRules rs) = {r. Some r \<in> set rs}"
  by (induction rs rule: keepRules.induct) auto

lemma parseRules_member:
  assumes "parseRules JSON_parse raw = Inr rules" "r \<in> set rules"
  shows "\<exists>v. parseRule v = Inr (Some r)"
  using assms
  by (auto simp: parseRules_value parseRule_returns keepRules_set
      split: option.splits if_splits jsval.splits; metis)

lemma parseDiscountRules_member:
  assumes "parseDiscountRules JSON_parse input = Inr rules" "r \<in> set rules"
  shows "\<exists>v. parseRule_fn v = Inr (Some r)"
  using assms
  by (auto simp: parseDiscountRules_def parseDiscountRules_value parseRule_fn_returns keepRules_set
      split: option.splits if_splits jsval.splits; metis)

lemma finite_not_less:
  "isFinite n \<Longrightarrow> \<not> js_lt n (Fin b) \<Longrightarrow> \<exists>q. n = Fin q \<and> b \<le> q"
  by (cases n) auto

lemma parseRule_minQty:
  "parseRule raw = Inr (Some r) \<Longrightarrow>
     minQty r = numberOrNaN (prop_value raw ''minQty'') \<and> (\<exists>q. minQty r = Fin q \<and> 2 \<le> q)"
  by (auto simp: parseRule_value finite_not_less split: if_splits jsval.splits)

lemma parseRule_fn_minQty:
  "parseRule_fn raw = Inr (Some r) \<Longrightarrow>
     minQty r = numberOrNaN (prop_value raw ''minQty'') \<and> (\<exists>q. minQty r = Fin q \<and> 2 \<le> q)"
  by (auto simp: parseRule_fn_value finite_not_less split: if_splits jsval.splits)

text \<open>
  C8. Both validators return a rule only when the coerced \<^verbatim>\<open>minQty\<close> is finite and at
  least \<open>2\<close>, and the rule then carries the coerced value itself (nothing is clamped);
  when the coerced \<^verbatim>\<open>minQty\<close> is not finite or is below \<open>2\<close> they return \<^verbatim>\<open>null\<close>. So no
  rule with \<^verbatim>\<open>minQty\<close> \<open>1\<close> is in any result of \<^verbatim>\<open>parseRules\<close> or \<^verbatim>\<open>parseDiscountRules\<close>.
\<close>

theorem minQty_below_two_is_dropped:
  "(parseRule raw = Inr (Some r) \<longrightarrow>
      minQty r = numberOrNaN (prop_value raw ''minQty'') \<and> (\<exists>q. minQty r = Fin q \<and> 2 \<le> q))
   \<and> (parseRule_fn raw = Inr (Some c) \<longrightarrow>
      minQty c = numberOrNaN (prop_value raw ''minQty'') \<and> (\<exists>q. minQty c = Fin q \<and> 2 \<le> q))
   \<and> (\<not> isFinite (numberOrNaN (prop_value raw ''minQty''))
        \<or> js_lt (numberOrNaN (prop_value raw ''minQty'')) (Fin 2)
      \<longrightarrow> parseRule raw = Inr None \<and> parseRule_fn raw = Inr None)
   \<and> (parseRules JSON_parse stored = Inr rules \<longrightarrow>
        (\<forall>x\<in>set rules. minQty x \<noteq> Fin 1 \<and> (\<exists>q. minQty x = Fin q \<and> 2 \<le> q)))
   \<and> (parseDiscountRules JSON_parse input = Inr configs \<longrightarrow>
        (\<forall>x\<in>set configs. minQty x \<noteq> Fin 1 \<and> (\<exists>q. minQty x = Fin q \<and> 2 \<le> q)))"
proof (intro conjI impI ballI)
  assume "parseRule raw = Inr (Some r)"
  then show "minQty r = numberOrNaN (prop_value raw ''minQty'')"
    and "\<exists>q. minQty r = Fin q \<and> 2 \<le> q"
    using parseRule_minQty by blast+
next
  assume "parseRule_fn raw = Inr (Some c)"
  then show "minQty c = numberOrNaN (prop_value raw ''minQty'')"
    and "\<exists>q. minQty c = Fin q \<and> 2 \<le> q"
    using parseRule_fn_minQty by blast+
next
  assume bad: "\<not> isFinite (numberOrNaN (prop_value raw ''minQty''))
        \<or> js_lt (numberOrNaN (prop_value raw ''minQty'')) (Fin 2)"
  then show "parseRule raw = Inr None"
    by (auto simp: parseRule_value split: jsval.splits)
  from bad show "parseRule_fn raw = Inr None"
    by (auto simp: parseRule_fn_value split: jsval.splits)
next
  fix x assume "parseRules JSON_parse stored = Inr rules" "x \<in> set rules"
  then obtain v where "parseRule v = Inr (Some x)"
    using parseRules_member by blast
  then have q: "\<exists>q. minQty x = Fin q \<and> 2 \<le> q"
    using parseRule_minQty by blast
  then show "minQty x \<noteq> Fin 1" by auto
  from q show "\<exists>q. minQty x = Fin q \<and> 2 \<le> q" .
next
  fix x assume "parseDiscountRules JSON_parse input = Inr configs" "x \<in> set configs"
  then obtain v where "parseRule_fn v = Inr (Some x)"
    using parseDiscountRules_member by blast
  then have q: "\<exists>q. minQty x = Fin q \<and> 2 \<le> q"
    using parseRule_fn_minQty by blast
  then show "minQty x \<noteq> Fin 1" by auto
  from q show "\<exists>q. minQty x = Fin q \<and> 2 \<le> q" .
qed

theorem minQty_below_two_is_dropped_witness:
  "parseRule ruleA_json = Inr (Some \<lparr>percentOff = Fin 10, products = [''P1''], minQty = Fin 2,
                                      discountId = None\<rparr>)
   \<and> parseRule_fn ruleA_json = Inr (Some ruleA)
   \<and> (\<exists>q. minQty ruleA = Fin q \<and> 2 \<le> q)
   \<and> js_lt (numberOrNaN (prop_value minQty1_json ''minQty'')) (Fin 2)
   \<and> parseRule minQty1_json = Inr None
   \<and> parseRule_fn minQty1_json = Inr None
   \<and> parseRules JSON_parse_sample (JObj [(''rules'', JArr [minQty1_json, ruleA_json])])
       = Inr [\<lparr>percentOff = Fin 10, products = [''P1''], minQty = Fin 2, discountId = None\<rparr>]
   \<and> parseDiscountRules JSON_parse_sample
        (shopWith (JObj [(''rules'', JArr [minQty1_json, ruleA_json])]) []) = Inr [ruleA]
   \<and> minQty ruleA \<noteq> Fin 1"
proof -
  have a: "parseRule ruleA_json = Inr (Some \<lparr>percentOff = Fin 10, products = [''P1''],
             minQty = Fin 2, discountId = None\<rparr>)"
    by (simp add: parseRule_def ruleA_json_def)
  have f: "parseRule_fn ruleA_json = Inr (Some ruleA)"
    by (simp add: parseRule_fn_def ruleA_json_def ruleA_def js_gt_def)
  have b: "js_lt (numberOrNaN (prop_value minQty1_json ''minQty'')) (Fin 2)"
    by (simp add: prop_value_def minQty1_json_def)
  have s: "parseRules JSON_parse_sample (JObj [(''rules'', JArr [minQty1_json, ruleA_json])])
       = Inr [\<lparr>percentOff = Fin 10, products = [''P1''], minQty = Fin 2, discountId = None\<rparr>]"
    by (simp add: parseRules_def parseRulesWith_def decodedValue_def parseRule_def
        ruleA_json_def minQty1_json_def)
  have t: "parseDiscountRules JSON_parse_sample
        (shopWith (JObj [(''rules'', JArr [minQty1_json, ruleA_json])]) []) = Inr [ruleA]"
    by (simp add: parseDiscountRules_def parseRulesWith_def decodedValue_def parseRule_fn_def
        ruleA_json_def minQty1_json_def shopWith_def jsonValue_of_def ruleA_def js_gt_def)
  note T1 = minQty_below_two_is_dropped [of ruleA_json
        "\<lparr>percentOff = Fin 10, products = [''P1''], minQty = Fin 2, discountId = None\<rparr>"
        ruleA JSON_parse_sample "JObj [(''rules'', JArr [minQty1_json, ruleA_json])]"
        "[\<lparr>percentOff = Fin 10, products = [''P1''], minQty = Fin 2, discountId = None\<rparr>]"
        "shopWith (JObj [(''rules'', JArr [minQty1_json, ruleA_json])]) []" "[ruleA]"]
  note T2 = minQty_below_two_is_dropped [of minQty1_json]
  from T1 f have c1: "\<exists>q. minQty ruleA = Fin q \<and> 2 \<le> q"
    by blast
  from T2 b have c2: "parseRule minQty1_json = Inr None \<and> parseRule_fn minQty1_json = Inr None"
    by blast
  from T1 t have c3: "minQty ruleA \<noteq> Fin 1"
    by simp
  from a f c1 b c2 s t c3 show ?thesis
    by blast
qed

subsection \<open>The percentage\<close>

lemma prop_value_JArr_object:
  "prop_value raw k = JArr elems \<Longrightarrow> \<not> falsy raw \<and> typeof raw = ''object''"
  by (cases raw) (simp_all add: prop_value_def)

lemma finite_in_bounds:
  "isFinite n \<Longrightarrow> \<not> js_lt n (Fin a) \<Longrightarrow> \<not> js_gt n (Fin b) \<Longrightarrow> \<exists>x. n = Fin x \<and> a \<le> x \<and> x \<le> b"
  by (cases n) (auto simp: js_gt_def)

text \<open>
  C6 (as amended). The admin validator coerces \<^verbatim>\<open>percentOff\<close> and rejects the rule only
  when the result is not finite: for every object whose \<^verbatim>\<open>products\<close> is an array and whose
  coerced \<^verbatim>\<open>minQty\<close> is finite and at least \<open>2\<close>, it returns a rule carrying the coerced
  \<^verbatim>\<open>percentOff\<close> whenever that is finite, whatever its size. The validator of the discount
  function coerces the same way and also rejects a percentage below \<open>1\<close> or above \<open>80\<close>.
\<close>

theorem percentOff_bound_only_in_function:
  "(prop_value raw ''products'' = JArr elems
      \<and> numberOrNaN (prop_value raw ''minQty'') = Fin q \<and> 2 \<le> q
    \<longrightarrow> parseRule raw =
          Inr (if isFinite (numberOrNaN (prop_value raw ''percentOff''))
               then Some \<lparr>percentOff = numberOrNaN (prop_value raw ''percentOff''),
                          products = nonEmptyStrings elems, minQty = Fin q,
                          discountId = stringOrUndefined (prop_value raw ''discountId'')\<rparr>
               else None))
   \<and> (parseRule_fn raw = Inr (Some c)
      \<longrightarrow> percentOff c = numberOrNaN (prop_value raw ''percentOff'')
          \<and> (\<exists>x. percentOff c = Fin x \<and> 1 \<le> x \<and> x \<le> 80))
   \<and> (\<not> isFinite (numberOrNaN (prop_value raw ''percentOff''))
        \<or> js_lt (numberOrNaN (prop_value raw ''percentOff'')) (Fin 1)
        \<or> js_gt (numberOrNaN (prop_value raw ''percentOff'')) (Fin 80)
      \<longrightarrow> parseRule_fn raw = Inr None)"
proof (intro conjI impI)
  assume h: "prop_value raw ''products'' = JArr elems
      \<and> numberOrNaN (prop_value raw ''minQty'') = Fin q \<and> 2 \<le> q"
  then have "\<not> falsy raw \<and> typeof raw = ''object''"
    using prop_value_JArr_object by blast
  with h show "parseRule raw =
          Inr (if isFinite (numberOrNaN (prop_value raw ''percentOff''))
               then Some \<lparr>percentOff = numberOrNaN (prop_value raw ''percentOff''),
                          products = nonEmptyStrings elems, minQty = Fin q,
                          discountId = stringOrUndefined (prop_value raw ''discountId'')\<rparr>
               else None)"
    by (simp add: parseRule_value)
next
  assume a: "parseRule_fn raw = Inr (Some c)"
  then show "percentOff c = numberOrNaN (prop_value raw ''percentOff'')"
    by (auto simp: parseRule_fn_value split: if_splits jsval.splits)
  from a show "\<exists>x. percentOff c = Fin x \<and> 1 \<le> x \<and> x \<le> 80"
    by (auto simp: parseRule_fn_value finite_in_bounds split: if_splits jsval.splits)
next
  assume "\<not> isFinite (numberOrNaN (prop_value raw ''percentOff''))
        \<or> js_lt (numberOrNaN (prop_value raw ''percentOff'')) (Fin 1)
        \<or> js_gt (numberOrNaN (prop_value raw ''percentOff'')) (Fin 80)"
  then show "parseRule_fn raw = Inr None"
    by (auto simp: parseRule_fn_value)
qed

theorem percentOff_bound_only_in_function_witness:
  "prop_value percent90_json ''products'' = JArr [JStr ''P1'']
   \<and> numberOrNaN (prop_value percent90_json ''minQty'') = Fin 2
   \<and> parseRule percent90_json
       = Inr (Some \<lparr>percentOff = Fin 90, products = [''P1''], minQty = Fin 2, discountId = None\<rparr>)
   \<and> js_gt (numberOrNaN (prop_value percent90_json ''percentOff'')) (Fin 80)
   \<and> parseRule_fn percent90_json = Inr None
   \<and> parseRule_fn ruleA_json = Inr (Some ruleA)
   \<and> (\<exists>x. percentOff ruleA = Fin x \<and> 1 \<le> x \<and> x \<le> 80)"
proof -
  have p: "prop_value percent90_json ''products'' = JArr [JStr ''P1'']"
    and m: "numberOrNaN (prop_value percent90_json ''minQty'') = Fin 2"
    and v: "numberOrNaN (prop_value percent90_json ''percentOff'') = Fin 90"
    and d: "prop_value percent90_json ''discountId'' = JUndefined"
    by (simp_all add: prop_value_def percent90_json_def)
  have g: "js_gt (numberOrNaN (prop_value percent90_json ''percentOff'')) (Fin 80)"
    by (simp add: v js_gt_def)
  have f: "parseRule_fn ruleA_json = Inr (Some ruleA)"
    by (simp add: parseRule_fn_def ruleA_json_def ruleA_def js_gt_def)
  note T1 = percentOff_bound_only_in_function [of percent90_json "[JStr ''P1'']" 2]
  note T2 = percentOff_bound_only_in_function [of ruleA_json _ _ ruleA]
  from T1 p m have "parseRule percent90_json =
          Inr (if isFinite (numberOrNaN (prop_value percent90_json ''percentOff''))
               then Some \<lparr>percentOff = numberOrNaN (prop_value percent90_json ''percentOff''),
                          products = nonEmptyStrings [JStr ''P1''], minQty = Fin 2,
                          discountId = stringOrUndefined (prop_value percent90_json ''discountId'')\<rparr>
               else None)"
    by simp
  then have c1: "parseRule percent90_json
       = Inr (Some \<lparr>percentOff = Fin 90, products = [''P1''], minQty = Fin 2, discountId = None\<rparr>)"
    by (simp add: v d)
  from T1 g have c2: "parseRule_fn percent90_json = Inr None"
    by blast
  from T2 f have c3: "\<exists>x. percentOff ruleA = Fin x \<and> 1 \<le> x \<and> x \<le> 80"
    by blast
  from p m c1 g c2 f c3 show ?thesis
    by blast
qed

text \<open>
  The claim as first stated fails for the validator of the discount function: with
  \<^verbatim>\<open>percentOff\<close> \<open>90\<close> and the other fields valid it returns \<^verbatim>\<open>null\<close>.
\<close>

theorem percentOff_bound_counterexample:
  "parseRule_fn (JObj [(''percentOff'', JNum (Fin 90)), (''products'', JArr [JStr ''P1'']),
                       (''minQty'', JNum (Fin 2))]) = Inr None"
  by (simp add: parseRule_fn_def js_gt_def)

subsection \<open>The products\<close>

lemma nonEmptyStrings_conv:
  "nonEmptyStrings elems =
     concat (map (\<lambda>v. case v of JStr s \<Rightarrow> if s \<noteq> [] then [s] else [] | _ \<Rightarrow> []) elems)"
  by (induction elems rule: nonEmptyStrings.induct) simp_all

lemma not_isArray_case:
  "\<not> isArray v \<Longrightarrow> (case v of JArr elems \<Rightarrow> f elems | _ \<Rightarrow> d) = d"
  by (cases v) simp_all

text \<open>
  C7 (as amended). Both validators reject a rule whose \<^verbatim>\<open>products\<close> is not an array, and the
  products of an accepted rule are the non-empty strings of the array, in order. The
  validator of the discount function rejects the rule when none remains and accepts it
  (the other fields being valid) when one does; the admin validator accepts it (the
  other fields being valid) whatever remains, also with no product at all.
\<close>

theorem products_kept_and_dropped:
  "(\<not> isArray (prop_value raw ''products'')
      \<longrightarrow> parseRule raw = Inr None \<and> parseRule_fn raw = Inr None)
   \<and> (parseRule raw = Inr (Some r)
      \<longrightarrow> (\<exists>elems. prop_value raw ''products'' = JArr elems
                  \<and> products r = nonEmptyStrings elems))
   \<and> (parseRule_fn raw = Inr (Some c)
      \<longrightarrow> (\<exists>elems. prop_value raw ''products'' = JArr elems
                  \<and> products c = nonEmptyStrings elems \<and> products c \<noteq> []))
   \<and> nonEmptyStrings elems =
       concat (map (\<lambda>v. case v of JStr s \<Rightarrow> if s \<noteq> [] then [s] else [] | _ \<Rightarrow> []) elems)
   \<and> (prop_value raw ''products'' = JArr elems \<and> nonEmptyStrings elems = []
      \<longrightarrow> parseRule_fn raw = Inr None)
   \<and> (prop_value raw ''products'' = JArr elems \<and> nonEmptyStrings elems \<noteq> []
        \<and> numberOrNaN (prop_value raw ''percentOff'') = Fin p \<and> 1 \<le> p \<and> p \<le> 80
        \<and> numberOrNaN (prop_value raw ''minQty'') = Fin q \<and> 2 \<le> q
      \<longrightarrow> parseRule_fn raw =
            Inr (Some \<lparr>percentOff = Fin p, products = nonEmptyStrings elems, minQty = Fin q\<rparr>))
   \<and> (prop_value raw ''products'' = JArr elems
        \<and> numberOrNaN (prop_value raw ''percentOff'') = Fin p
        \<and> numberOrNaN (prop_value raw ''minQty'') = Fin q \<and> 2 \<le> q
      \<longrightarrow> parseRule raw =
            Inr (Some \<lparr>percentOff = Fin p, products = nonEmptyStrings elems, minQty = Fin q,
                       discountId = stringOrUndefined (prop_value raw ''discountId'')\<rparr>))"
proof (intro conjI impI)
  assume n: "\<not> isArray (prop_value raw ''products'')"
  then show "parseRule raw = Inr None"
    by (simp add: parseRule_value not_isArray_case)
  from n show "parseRule_fn raw = Inr None"
    by (simp add: parseRule_fn_value not_isArray_case)
next
  assume "parseRule raw = Inr (Some r)"
  then show "\<exists>elems. prop_value raw ''products'' = JArr elems
                  \<and> products r = nonEmptyStrings elems"
    by (auto simp: parseRule_value split: if_splits jsval.splits)
next
  assume "parseRule_fn raw = Inr (Some c)"
  then show "\<exists>elems. prop_value raw ''products'' = JArr elems
                  \<and> products c = nonEmptyStrings elems \<and> products c \<noteq> []"
    by (auto simp: parseRule_fn_value split: if_splits jsval.splits)
next
  show "nonEmptyStrings elems =
       concat (map (\<lambda>v. case v of JStr s \<Rightarrow> if s \<noteq> [] then [s] else [] | _ \<Rightarrow> []) elems)"
    by (rule nonEmptyStrings_conv)
next
  assume "prop_value raw ''products'' = JArr elems \<and> nonEmptyStrings elems = []"
  then show "parseRule_fn raw = Inr None"
    by (simp add: parseRule_fn_value)
next
  assume h: "prop_value raw ''products'' = JArr elems \<and> nonEmptyStrings elems \<noteq> []
        \<and> numberOrNaN (prop_value raw ''percentOff'') = Fin p \<and> 1 \<le> p \<and> p \<le> 80
        \<and> numberOrNaN (prop_value raw ''minQty'') = Fin q \<and> 2 \<le> q"
  then have "\<not> falsy raw \<and> typeof raw = ''object''"
    using prop_value_JArr_object by blast
  with h show "parseRule_fn raw =
            Inr (Some \<lparr>percentOff = Fin p, products = nonEmptyStrings elems, minQty = Fin q\<rparr>)"
    by (simp add: parseRule_fn_value js_gt_def)
next
  assume h: "prop_value raw ''products'' = JArr elems
        \<and> numberOrNaN (prop_value raw ''percentOff'') = Fin p
        \<and> numberOrNaN (prop_value raw ''minQty'') = Fin q \<and> 2 \<le> q"
  then have "\<not> falsy raw \<and> typeof raw = ''object''"
    using prop_value_JArr_object by blast
  with h show "parseRule raw =
            Inr (Some \<lparr>percentOff = Fin p, products = nonEmptyStrings elems, minQty = Fin q,
                       discountId = stringOrUndefined (prop_value raw ''discountId'')\<rparr>)"
    by (simp add: parseRule_value)
qed

theorem products_kept_and_dropped_witness:
  "\<not> isArray (prop_value (JObj [(''percentOff'', JNum (Fin 10)), (''products'', JStr ''P1''),
                                (''minQty'', JNum (Fin 2))]) ''products'')
   \<and> parseRule (JObj [(''percentOff'', JNum (Fin 10)), (''products'', JStr ''P1''),
                      (''minQty'', JNum (Fin 2))]) = Inr None
   \<and> parseRule_fn (JObj [(''percentOff'', JNum (Fin 10)), (''products'', JStr ''P1''),
                         (''minQty'', JNum (Fin 2))]) = Inr None
   \<and> prop_value noProducts_json ''products'' = JArr [JNum (Fin 5), JStr []]
   \<and> nonEmptyStrings [JNum (Fin 5), JStr []] = []
   \<and> parseRule_fn noProducts_json = Inr None
   \<and> parseRule noProducts_json
       = Inr (Some \<lparr>percentOff = Fin 10, products = [], minQty = Fin 2, discountId = None\<rparr>)
   \<and> parseRule_fn (JObj [(''percentOff'', JNum (Fin 10)),
                         (''products'', JArr [JNum (Fin 5), JStr ''P1'', JStr [], JStr ''P2'']),
                         (''minQty'', JNum (Fin 2))])
       = Inr (Some \<lparr>percentOff = Fin 10, products = [''P1'', ''P2''], minQty = Fin 2\<rparr>)"
proof -
  let ?bad = "JObj [(''percentOff'', JNum (Fin 10)), (''products'', JStr ''P1''),
                    (''minQty'', JNum (Fin 2))]"
  let ?mixed = "JObj [(''percentOff'', JNum (Fin 10)),
                      (''products'', JArr [JNum (Fin 5), JStr ''P1'', JStr [], JStr ''P2'']),
                      (''minQty'', JNum (Fin 2))]"
  have b: "\<not> isArray (prop_value ?bad ''products'')"
    by (simp add: prop_value_def)
  have n: "prop_value noProducts_json ''products'' = JArr [JNum (Fin 5), JStr []]"
    "numberOrNaN (prop_value noProducts_json ''percentOff'') = Fin 10"
    "numberOrNaN (prop_value noProducts_json ''minQty'') = Fin 2"
    "prop_value noProducts_json ''discountId'' = JUndefined"
    by (simp_all add: prop_value_def noProducts_json_def)
  have e: "nonEmptyStrings [JNum (Fin 5), JStr []] = []"
    by simp
  have m: "prop_value ?mixed ''products'' = JArr [JNum (Fin 5), JStr ''P1'', JStr [], JStr ''P2'']"
    "numberOrNaN (prop_value ?mixed ''percentOff'') = Fin 10"
    "numberOrNaN (prop_value ?mixed ''minQty'') = Fin 2"
    by (simp_all add: prop_value_def)
  have k: "nonEmptyStrings [JNum (Fin 5), JStr ''P1'', JStr [], JStr ''P2''] = [''P1'', ''P2'']"
    by simp
  note T1 = products_kept_and_dropped [of ?bad]
  note T2 = products_kept_and_dropped [of noProducts_json _ _ "[JNum (Fin 5), JStr []]" 10 2]
  note T3 = products_kept_and_dropped
    [of ?mixed _ _ "[JNum (Fin 5), JStr ''P1'', JStr [], JStr ''P2'']" 10 2]
  from T1 b have c1: "parseRule ?bad = Inr None \<and> parseRule_fn ?bad = Inr None"
    by blast
  from T2 n(1) e have c2: "parseRule_fn noProducts_json = Inr None"
    by blast
  from T2 n(1,2,3) have "parseRule noProducts_json =
            Inr (Some \<lparr>percentOff = Fin 10, products = nonEmptyStrings [JNum (Fin 5), JStr []],
                       minQty = Fin 2,
                       discountId = stringOrUndefined (prop_value noProducts_json ''discountId'')\<rparr>)"
    by simp
  then have c3: "parseRule noProducts_json
       = Inr (Some \<lparr>percentOff = Fin 10, products = [], minQty = Fin 2, discountId = None\<rparr>)"
    by (simp add: n(4))
  from T3 m k have "parseRule_fn ?mixed =
            Inr (Some \<lparr>percentOff = Fin 10,
                       products = nonEmptyStrings [JNum (Fin 5), JStr ''P1'', JStr [], JStr ''P2''],
                       minQty = Fin 2\<rparr>)"
    by simp
  then have c4: "parseRule_fn ?mixed
       = Inr (Some \<lparr>percentOff = Fin 10, products = [''P1'', ''P2''], minQty = Fin 2\<rparr>)"
    by (simp only: k)
  from b c1 n(1) e c2 c3 c4 show ?thesis
    by blast
qed

text \<open>
  The claim as first stated fails for the admin validator: a rule none of whose products
  is a non-empty string is returned, with an empty product list.
\<close>

theorem products_empty_counterexample:
  "parseRule (JObj [(''percentOff'', JNum (Fin 10)),
                    (''products'', JArr [JNum (Fin 5), JStr []]),
                    (''minQty'', JNum (Fin 2))])
     = Inr (Some \<lparr>percentOff = Fin 10, products = [], minQty = Fin 2, discountId = None\<rparr>)"
  by (simp add: parseRule_def)

subsection \<open>The legacy shape\<close>

lemma parseRule_accepts_object:
  "parseRule obj = Inr (Some r) \<Longrightarrow> \<not> falsy obj \<and> typeof obj = ''object''"
  by (auto simp: parseRule_value split: if_splits)

lemma parseRule_fn_accepts_object:
  "parseRule_fn obj = Inr (Some r) \<Longrightarrow> \<not> falsy obj \<and> typeof obj = ''object''"
  by (auto simp: parseRule_fn_value split: if_splits)

lemma decodedValue_object:
  "typeof obj = ''object'' \<Longrightarrow> decodedValue JSON_parse obj = Some obj"
  by (cases obj) (simp_all add: decodedValue_def)

lemma prop_value_rules_wrapper:
  "prop_value (JObj [(''rules'', v)]) ''rules'' = v"
  by (simp add: prop_value_def)

lemma parseRulesWith_legacy:
  assumes "\<And>v. pr v = Inr (g v)" "g obj = Some r" "\<not> falsy obj" "typeof obj = ''object''"
    "\<not> isArray (prop_value obj ''rules'')"
  shows "parseRulesWith pr JSON_parse obj = Inr [r]"
  using assms(2-)
  by (simp add: parseRulesWith_value [of pr g, OF assms(1)] decodedValue_object not_isArray_case)

lemma parseRulesWith_wrapped:
  assumes "\<And>v. pr v = Inr (g v)" "g obj = Some r"
  shows "parseRulesWith pr JSON_parse (JObj [(''rules'', JArr [obj])]) = Inr [r]"
  using assms(2)
  by (simp add: parseRulesWith_value [of pr g, OF assms(1)] decodedValue_def
      prop_value_rules_wrapper)

text \<open>
  C9 (as amended). For every value that a validator accepts and whose own \<^verbatim>\<open>rules\<close>
  property is not an array, the set parser returns the same one-element list for the
  bare value and for the value wrapped as \<^verbatim>\<open>{ "rules": [ value ] }\<close>; so for the admin
  \<^verbatim>\<open>parseRules\<close> and for \<^verbatim>\<open>parseDiscountRules\<close> of the discount function.
\<close>

theorem legacy_shape_parses_like_wrapped:
  "(parseRule obj = Inr (Some r) \<and> \<not> isArray (prop_value obj ''rules'')
      \<longrightarrow> parseRules JSON_parse obj = Inr [r]
          \<and> parseRules JSON_parse (JObj [(''rules'', JArr [obj])]) = Inr [r])
   \<and> (parseRule_fn obj = Inr (Some c) \<and> \<not> isArray (prop_value obj ''rules'')
        \<and> jsonValue_of bare = obj \<and> jsonValue_of wrapped = JObj [(''rules'', JArr [obj])]
      \<longrightarrow> parseDiscountRules JSON_parse bare = Inr [c]
          \<and> parseDiscountRules JSON_parse wrapped = Inr [c])"
proof (intro conjI impI)
  assume h: "parseRule obj = Inr (Some r) \<and> \<not> isArray (prop_value obj ''rules'')"
  then have g: "parseRule_result obj = Some r"
    by (simp add: parseRule_result_def)
  from h have o: "\<not> falsy obj" "typeof obj = ''object''"
    using parseRule_accepts_object by blast+
  from g o h show "parseRules JSON_parse obj = Inr [r]"
    unfolding parseRules_def by (simp add: parseRulesWith_legacy [OF parseRule_returns])
  from g show "parseRules JSON_parse (JObj [(''rules'', JArr [obj])]) = Inr [r]"
    unfolding parseRules_def by (simp add: parseRulesWith_wrapped [OF parseRule_returns])
next
  assume h: "parseRule_fn obj = Inr (Some c) \<and> \<not> isArray (prop_value obj ''rules'')
        \<and> jsonValue_of bare = obj \<and> jsonValue_of wrapped = JObj [(''rules'', JArr [obj])]"
  then have g: "parseRule_fn_result obj = Some c"
    by (simp add: parseRule_fn_result_def)
  from h have o: "\<not> falsy obj" "typeof obj = ''object''"
    using parseRule_fn_accepts_object by blast+
  from g o h show "parseDiscountRules JSON_parse bare = Inr [c]"
    unfolding parseDiscountRules_def by (simp add: parseRulesWith_legacy [OF parseRule_fn_returns])
  from g h show "parseDiscountRules JSON_parse wrapped = Inr [c]"
    unfolding parseDiscountRules_def by (simp add: parseRulesWith_wrapped [OF parseRule_fn_returns])
qed

theorem legacy_shape_parses_like_wrapped_witness:
  "parseRule ruleA_json
     = Inr (Some \<lparr>percentOff = Fin 10, products = [''P1''], minQty = Fin 2, discountId = None\<rparr>)
   \<and> parseRule_fn ruleA_json = Inr (Some ruleA)
   \<and> \<not> isArray (prop_value ruleA_json ''rules'')
   \<and> parseRules JSON_parse_sample ruleA_json
       = Inr [\<lparr>percentOff = Fin 10, products = [''P1''], minQty = Fin 2, discountId = None\<rparr>]
   \<and> parseRules JSON_parse_sample (JObj [(''rules'', JArr [ruleA_json])])
       = Inr [\<lparr>percentOff = Fin 10, products = [''P1''], minQty = Fin 2, discountId = None\<rparr>]
   \<and> parseDiscountRules JSON_parse_sample (shopWith ruleA_json []) = Inr [ruleA]
   \<and> parseDiscountRules JSON_parse_sample (shopWith (JObj [(''rules'', JArr [ruleA_json])]) [])
       = Inr [ruleA]"
proof -
  have a: "parseRule ruleA_json
     = Inr (Some \<lparr>percentOff = Fin 10, products = [''P1''], minQty = Fin 2, discountId = None\<rparr>)"
    by (simp add: parseRule_def ruleA_json_def)
  have f: "parseRule_fn ruleA_json = Inr (Some ruleA)"
    by (simp add: parseRule_fn_def ruleA_json_def ruleA_def js_gt_def)
  have n: "\<not> isArray (prop_value ruleA_json ''rules'')"
    by (simp add: prop_value_def ruleA_json_def)
  have j: "jsonValue_of (shopWith ruleA_json []) = ruleA_json"
    "jsonValue_of (shopWith (JObj [(''rules'', JArr [ruleA_json])]) [])
       = JObj [(''rules'', JArr [ruleA_json])]"
    by (simp_all add: jsonValue_of_def shopWith_def)
  note T = legacy_shape_parses_like_wrapped [of ruleA_json
      "\<lparr>percentOff = Fin 10, products = [''P1''], minQty = Fin 2, discountId = None\<rparr>"
      JSON_parse_sample ruleA "shopWith ruleA_json []"
      "shopWith (JObj [(''rules'', JArr [ruleA_json])]) []"]
  from T a f n j show ?thesis
    by blast
qed

text \<open>
  The claim as first stated fails for an accepted object that has a \<^verbatim>\<open>rules\<close> array of its
  own: bare, it is read as a rule set (here an empty one); wrapped, as one rule.
\<close>

theorem legacy_shape_counterexample:
  "parseRule (JObj [(''percentOff'', JNum (Fin 10)), (''products'', JArr [JStr ''P1'']),
                    (''minQty'', JNum (Fin 2)), (''rules'', JArr [])])
     = Inr (Some \<lparr>percentOff = Fin 10, products = [''P1''], minQty = Fin 2, discountId = None\<rparr>)
   \<and> parseRules JSON_parse_sample
        (JObj [(''percentOff'', JNum (Fin 10)), (''products'', JArr [JStr ''P1'']),
               (''minQty'', JNum (Fin 2)), (''rules'', JArr [])])
       = Inr []
   \<and> parseRules JSON_parse_sample
        (JObj [(''rules'', JArr [JObj [(''percentOff'', JNum (Fin 10)),
                                       (''products'', JArr [JStr ''P1'']),
                                       (''minQty'', JNum (Fin 2)), (''rules'', JArr [])]])])
       = Inr [\<lparr>percentOff = Fin 10, products = [''P1''], minQty = Fin 2, discountId = None\<rparr>]"
  by (simp add: parseRules_def parseRulesWith_def decodedValue_def parseRule_def)

subsection \<open>An empty percentage string\<close>

lemma Number_of_empty_string: "Number_of_string [] = Fin 0"
  by (simp add: Number_of_string_def trimString_def)

text \<open>
  C10. An object whose \<^verbatim>\<open>percentOff\<close> is the empty string, whose \<^verbatim>\<open>products\<close> is an array and
  whose coerced \<^verbatim>\<open>minQty\<close> is finite and at least \<open>2\<close> is accepted by the admin validator,
  with \<^verbatim>\<open>percentOff\<close> \<open>0\<close> (\<^verbatim>\<open>Number("")\<close> is \<open>0\<close>), and rejected by the validator of the
  discount function, for which \<open>0\<close> is below the bound \<open>1\<close>. Stored as the only rule, it is
  read back by the admin \<^verbatim>\<open>parseRules\<close> and gives no operation in
  \<^verbatim>\<open>cartLinesDiscountsGenerateRun\<close>.
\<close>

theorem empty_percentOff_admin_accepts_function_rejects:
  "prop_value obj ''percentOff'' = JStr []
   \<and> prop_value obj ''products'' = JArr elems
   \<and> numberOrNaN (prop_value obj ''minQty'') = Fin q \<and> 2 \<le> q
   \<longrightarrow>
     parseRule obj =
       Inr (Some \<lparr>percentOff = Fin 0, products = nonEmptyStrings elems, minQty = Fin q,
                  discountId = stringOrUndefined (prop_value obj ''discountId'')\<rparr>)
     \<and> parseRule_fn obj = Inr None
     \<and> parseRules JSON_parse (JObj [(''rules'', JArr [obj])]) =
         Inr [\<lparr>percentOff = Fin 0, products = nonEmptyStrings elems, minQty = Fin q,
               discountId = stringOrUndefined (prop_value obj ''discountId'')\<rparr>]
     \<and> (jsonValue_of input = JObj [(''rules'', JArr [obj])]
        \<longrightarrow> cartLinesDiscountsGenerateRun JSON_parse input = Inr \<lparr>operations = []\<rparr>)"
proof (intro impI)
  assume h: "prop_value obj ''percentOff'' = JStr []
   \<and> prop_value obj ''products'' = JArr elems
   \<and> numberOrNaN (prop_value obj ''minQty'') = Fin q \<and> 2 \<le> q"
  then have o: "\<not> falsy obj \<and> typeof obj = ''object''"
    using prop_value_JArr_object by blast
  have a: "parseRule obj =
       Inr (Some \<lparr>percentOff = Fin 0, products = nonEmptyStrings elems, minQty = Fin q,
                  discountId = stringOrUndefined (prop_value obj ''discountId'')\<rparr>)"
    using h o by (simp add: parseRule_value Number_of_empty_string)
  have f: "parseRule_fn obj = Inr None"
    using h o by (simp add: parseRule_fn_value Number_of_empty_string)
  have s: "parseRules JSON_parse (JObj [(''rules'', JArr [obj])]) =
         Inr [\<lparr>percentOff = Fin 0, products = nonEmptyStrings elems, minQty = Fin q,
               discountId = stringOrUndefined (prop_value obj ''discountId'')\<rparr>]"
    unfolding parseRules_def using a
    by (simp add: parseRulesWith_wrapped [OF parseRule_returns] parseRule_result_def)
  have r: "cartLinesDiscountsGenerateRun JSON_parse input = Inr \<lparr>operations = []\<rparr>"
    if "jsonValue_of input = JObj [(''rules'', JArr [obj])]"
  proof -
    have "parseDiscountRules JSON_parse input = Inr []"
      using that f
      by (simp add: parseDiscountRules_def parseDiscountRules_value decodedValue_def
          prop_value_rules_wrapper parseRule_fn_result_def)
    then show ?thesis
      by (simp add: cartLinesDiscountsGenerateRun_def)
  qed
  from a f s r show "parseRule obj =
       Inr (Some \<lparr>percentOff = Fin 0, products = nonEmptyStrings elems, minQty = Fin q,
                  discountId = stringOrUndefined (prop_value obj ''discountId'')\<rparr>)
     \<and> parseRule_fn obj = Inr None
     \<and> parseRules JSON_parse (JObj [(''rules'', JArr [obj])]) =
         Inr [\<lparr>percentOff = Fin 0, products = nonEmptyStrings elems, minQty = Fin q,
               discountId = stringOrUndefined (prop_value obj ''discountId'')\<rparr>]
     \<and> (jsonValue_of input = JObj [(''rules'', JArr [obj])]
        \<longrightarrow> cartLinesDiscountsGenerateRun JSON_parse input = Inr \<lparr>operations = []\<rparr>)"
    by blast
qed

theorem empty_percentOff_admin_accepts_function_rejects_witness:
  "prop_value emptyPercent_json ''percentOff'' = JStr []
   \<and> prop_value emptyPercent_json ''products'' = JArr [JStr ''P1'']
   \<and> numberOrNaN (prop_value emptyPercent_json ''minQty'') = Fin 2
   \<and> parseRule emptyPercent_json
       = Inr (Some \<lparr>percentOff = Fin 0, products = [''P1''], minQty = Fin 2, discountId = None\<rparr>)
   \<and> parseRule_fn emptyPercent_json = Inr None
   \<and> parseRules JSON_parse_sample (JObj [(''rules'', JArr [emptyPercent_json])])
       = Inr [\<lparr>percentOff = Fin 0, products = [''P1''], minQty = Fin 2, discountId = None\<rparr>]
   \<and> cartLinesDiscountsGenerateRun JSON_parse_sample
        (shopWith (JObj [(''rules'', JArr [emptyPercent_json])])
           [\<lparr>line_id = ''L1'', quantity = 5, merchandise = ProductVariant ''P1''\<rparr>])
       = Inr \<lparr>operations = []\<rparr>"
proof -
  have p: "prop_value emptyPercent_json ''percentOff'' = JStr []"
    "prop_value emptyPercent_json ''products'' = JArr [JStr ''P1'']"
    "numberOrNaN (prop_value emptyPercent_json ''minQty'') = Fin 2"
    "prop_value emptyPercent_json ''discountId'' = JUndefined"
    by (simp_all add: prop_value_def emptyPercent_json_def)
  have j: "jsonValue_of (shopWith (JObj [(''rules'', JArr [emptyPercent_json])])
             [\<lparr>line_id = ''L1'', quantity = 5, merchandise = ProductVariant ''P1''\<rparr>])
           = JObj [(''rules'', JArr [emptyPercent_json])]"
    by (simp add: jsonValue_of_def shopWith_def)
  note T = empty_percentOff_admin_accepts_function_rejects
    [of emptyPercent_json "[JStr ''P1'']" 2 JSON_parse_sample
        "shopWith (JObj [(''rules'', JArr [emptyPercent_json])])
           [\<lparr>line_id = ''L1'', quantity = 5, merchandise = ProductVariant ''P1''\<rparr>]"]
  from T p(1,2,3) j have
    "parseRule emptyPercent_json =
       Inr (Some \<lparr>percentOff = Fin 0, products = nonEmptyStrings [JStr ''P1''], minQty = Fin 2,
                  discountId = stringOrUndefined (prop_value emptyPercent_json ''discountId'')\<rparr>)
     \<and> parseRule_fn emptyPercent_json = Inr None
     \<and> parseRules JSON_parse_sample (JObj [(''rules'', JArr [emptyPercent_json])]) =
         Inr [\<lparr>percentOff = Fin 0, products = nonEmptyStrings [JStr ''P1''], minQty = Fin 2,
               discountId = stringOrUndefined (prop_value emptyPercent_json ''discountId'')\<rparr>]
     \<and> cartLinesDiscountsGenerateRun JSON_parse_sample
        (shopWith (JObj [(''rules'', JArr [emptyPercent_json])])
           [\<lparr>line_id = ''L1'', quantity = 5, merchandise = ProductVariant ''P1''\<rparr>])
       = Inr \<lparr>operations = []\<rparr>"
    by simp
  with p show ?thesis
    by simp
qed

section \<open>Properties of the rule store update\<close>

lemma prefix_gid_nonempty: "prefix ''gid://'' s \<Longrightarrow> s \<noteq> []"
  by auto

text \<open>
  Past the guards of the two actions the identifier written into the store is a
  non-empty string: the create action returns early on \<^verbatim>\<open>!discountId\<close>, the edit action on
  \<^verbatim>\<open>!updateId\<close>, and \<^verbatim>\<open>normalizeDiscountIds\<close> gives a non-empty \<^verbatim>\<open>discountNodeId\<close> whenever it
  gives a non-empty \<^verbatim>\<open>updateId\<close>.
\<close>

lemma normalizeDiscountIds_nonempty:
  assumes "normalizeDiscountIds decodeURIComponent rawId = Inr (discountNodeId, updateId)"
    and "\<not> noId updateId"
  shows "\<exists>d. d \<noteq> [] \<and> discountNodeId = Some d"
proof (cases rawId)
  case None
  with assms show ?thesis
    by (simp add: normalizeDiscountIds_def)
next
  case (Some r)
  show ?thesis
  proof (cases "decodeURIComponent r")
    case None
    with Some assms show ?thesis
      by (simp add: normalizeDiscountIds_def split: if_splits)
  next
    case decoded: (Some decoded)
    with Some assms show ?thesis
      by (auto simp: normalizeDiscountIds_def allDigits_def Let_def
          split: if_splits dest: prefix_gid_nonempty; metis noId.simps(2))
  qed
qed

lemma updatedRules_edit_create:
  "d \<noteq> [] \<Longrightarrow>
     updatedRules_edit existingRules (Some d) updateId newProducts newPercentOff
       = updatedRules_create existingRules d newProducts newPercentOff"
  by (simp add: updatedRules_edit_def updatedRules_create_def)

lemma create_action_stored:
  assumes "create_action JSON_parse rq = Inr (Stored rules)"
  shows "\<exists>existingRules newId. newId \<noteq> [] \<and> created_discountId rq = Some newId
           \<and> parseRules JSON_parse (shop_jsonValue rq) = Inr existingRules
           \<and> rules = updatedRules_create existingRules newId (form_products rq)
                 (Number_of_string
                    (trimString (case form_percentOff rq of None \<Rightarrow> [] | Some t \<Rightarrow> t)))"
  using assms
  by (auto simp: create_action_def Let_def parseRules_value split: if_splits option.splits)

lemma edit_action_stored:
  assumes "edit_action JSON_parse decodeURIComponent rq = Inr (Stored rules)"
  shows "\<exists>existingRules newId updateId. newId \<noteq> []
           \<and> normalizeDiscountIds decodeURIComponent (route_param rq) = Inr (Some newId, updateId)
           \<and> parseRules JSON_parse (shop_jsonValue rq) = Inr existingRules
           \<and> rules = updatedRules_create existingRules newId (form_products rq)
                 (Number_of_string
                    (trimString (case form_percentOff rq of None \<Rightarrow> [] | Some t \<Rightarrow> t)))"
proof -
  obtain n u where nu: "normalizeDiscountIds decodeURIComponent (route_param rq) = Inr (n, u)"
    using assms by (cases "normalizeDiscountIds decodeURIComponent (route_param rq)")
      (auto simp: edit_action_def Let_def)
  from assms nu have g: "\<not> noId u"
    by (auto simp: edit_action_def Let_def split: if_splits)
  with nu obtain d where d: "d \<noteq> []" "n = Some d"
    using normalizeDiscountIds_nonempty by blast
  from assms nu g d show ?thesis
    by (auto simp: edit_action_def Let_def parseRules_value updatedRules_edit_create
        split: if_splits)
qed

lemma keep_filter_nonempty_id:
  "newId \<noteq> [] \<Longrightarrow>
     (noId (discountId rule) \<or> discountId rule \<noteq> Some newId) = (discountId rule \<noteq> Some newId)"
  by (cases "discountId rule") auto

lemma updatedRules_create_nonempty:
  "newId \<noteq> [] \<Longrightarrow>
     updatedRules_create existingRules newId newProducts newPercentOff =
       filter (\<lambda>rule. discountId rule \<noteq> Some newId) existingRules
       @ [\<lparr>percentOff = newPercentOff, products = newProducts, minQty = Fin 2,
           discountId = Some newId\<rparr>]"
  by (simp add: updatedRules_create_def keep_filter_nonempty_id)

lemma length_filter_split:
  "length (filter (\<lambda>x. \<not> P x) xs) + length (filter P xs) = length xs"
  by (induction xs) simp_all

lemma filter_matching_appended:
  "filter (\<lambda>rule. discountId rule = Some newId)
     (filter (\<lambda>rule. discountId rule \<noteq> Some newId) existingRules
      @ [\<lparr>percentOff = p, products = ps, minQty = Fin 2, discountId = Some newId\<rparr>])
   = [\<lparr>percentOff = p, products = ps, minQty = Fin 2, discountId = Some newId\<rparr>]"
  by (induction existingRules) simp_all

text \<open>
  C2. \<^verbatim>\<open>updatedRules\<close> is the existing rules without those whose \<^verbatim>\<open>discountId\<close> is set and
  equal to the identifier being written, followed by the new rule. When exactly one
  existing rule has that identifier the result is as long as the input and its only rule
  with that identifier is the new one; when none has it, the result is the input
  followed by the new rule. The edit action computes the same list as the create action,
  for the \<^verbatim>\<open>discountNodeId\<close> that \<^verbatim>\<open>normalizeDiscountIds\<close> returns.
\<close>

theorem reconcile_removes_match_then_appends:
  "updatedRules_create existingRules newId ps p =
     filter (\<lambda>rule. \<not> (\<not> noId (discountId rule) \<and> discountId rule = Some newId)) existingRules
     @ [\<lparr>percentOff = p, products = ps, minQty = Fin 2, discountId = Some newId\<rparr>]
   \<and> (newId \<noteq> [] \<longrightarrow>
        updatedRules_create existingRules newId ps p =
          filter (\<lambda>rule. discountId rule \<noteq> Some newId) existingRules
          @ [\<lparr>percentOff = p, products = ps, minQty = Fin 2, discountId = Some newId\<rparr>])
   \<and> (newId \<noteq> [] \<and> length (filter (\<lambda>rule. discountId rule = Some newId) existingRules) = 1
      \<longrightarrow> length (updatedRules_create existingRules newId ps p) = length existingRules
          \<and> filter (\<lambda>rule. discountId rule = Some newId)
                (updatedRules_create existingRules newId ps p)
              = [\<lparr>percentOff = p, products = ps, minQty = Fin 2, discountId = Some newId\<rparr>])
   \<and> ((\<forall>rule \<in> set existingRules. discountId rule \<noteq> Some newId)
      \<longrightarrow> updatedRules_create existingRules newId ps p =
            existingRules
            @ [\<lparr>percentOff = p, products = ps, minQty = Fin 2, discountId = Some newId\<rparr>]
          \<and> length (updatedRules_create existingRules newId ps p) = length existingRules + 1)
   \<and> (normalizeDiscountIds decodeURIComponent rawId = Inr (discountNodeId, updateId)
        \<and> \<not> noId updateId
      \<longrightarrow> (\<exists>d. d \<noteq> [] \<and> discountNodeId = Some d
               \<and> updatedRules_edit existingRules discountNodeId updateId ps p
                   = updatedRules_create existingRules d ps p))"
proof (intro conjI impI)
  show "updatedRules_create existingRules newId ps p =
     filter (\<lambda>rule. \<not> (\<not> noId (discountId rule) \<and> discountId rule = Some newId)) existingRules
     @ [\<lparr>percentOff = p, products = ps, minQty = Fin 2, discountId = Some newId\<rparr>]"
    by (simp add: updatedRules_create_def)
next
  assume "newId \<noteq> []"
  then show "updatedRules_create existingRules newId ps p =
          filter (\<lambda>rule. discountId rule \<noteq> Some newId) existingRules
          @ [\<lparr>percentOff = p, products = ps, minQty = Fin 2, discountId = Some newId\<rparr>]"
    by (rule updatedRules_create_nonempty)
next
  assume h: "newId \<noteq> [] \<and> length (filter (\<lambda>rule. discountId rule = Some newId) existingRules) = 1"
  then have eq: "updatedRules_create existingRules newId ps p =
          filter (\<lambda>rule. discountId rule \<noteq> Some newId) existingRules
          @ [\<lparr>percentOff = p, products = ps, minQty = Fin 2, discountId = Some newId\<rparr>]"
    by (simp add: updatedRules_create_nonempty)
  have "length (filter (\<lambda>rule. \<not> discountId rule = Some newId) existingRules)
          + length (filter (\<lambda>rule. discountId rule = Some newId) existingRules)
        = length existingRules"
    by (rule length_filter_split)
  with h eq show "length (updatedRules_create existingRules newId ps p) = length existingRules"
    by simp
  from eq show "filter (\<lambda>rule. discountId rule = Some newId)
                (updatedRules_create existingRules newId ps p)
              = [\<lparr>percentOff = p, products = ps, minQty = Fin 2, discountId = Some newId\<rparr>]"
    by (simp only: filter_matching_appended)
next
  assume h: "\<forall>rule \<in> set existingRules. discountId rule \<noteq> Some newId"
  then have "filter (\<lambda>rule. noId (discountId rule) \<or> discountId rule \<noteq> Some newId) existingRules
               = existingRules"
    by (simp add: filter_id_conv)
  then show eq: "updatedRules_create existingRules newId ps p =
            existingRules
            @ [\<lparr>percentOff = p, products = ps, minQty = Fin 2, discountId = Some newId\<rparr>]"
    by (simp add: updatedRules_create_def)
  then show "length (updatedRules_create existingRules newId ps p) = length existingRules + 1"
    by simp
next
  assume "normalizeDiscountIds decodeURIComponent rawId = Inr (discountNodeId, updateId)
        \<and> \<not> noId updateId"
  then obtain d where "d \<noteq> []" "discountNodeId = Some d"
    using normalizeDiscountIds_nonempty by blast
  then show "\<exists>d. d \<noteq> [] \<and> discountNodeId = Some d
               \<and> updatedRules_edit existingRules discountNodeId updateId ps p
                   = updatedRules_create existingRules d ps p"
    by (simp add: updatedRules_edit_create)
qed

theorem reconcile_removes_match_then_appends_witness:
  "length (filter (\<lambda>rule. discountId rule = Some ''d1'') storedRules) = 1
   \<and> updatedRules_create storedRules ''d1'' [''P9''] (Fin 30) =
       [\<lparr>percentOff = Fin 15, products = [''P2''], minQty = Fin 2, discountId = None\<rparr>,
        \<lparr>percentOff = Fin 20, products = [''P3''], minQty = Fin 2, discountId = Some ''d2''\<rparr>,
        \<lparr>percentOff = Fin 30, products = [''P9''], minQty = Fin 2, discountId = Some ''d1''\<rparr>]
   \<and> length (updatedRules_create storedRules ''d1'' [''P9''] (Fin 30)) = length storedRules
   \<and> updatedRules_create storedRules ''d3'' [''P9''] (Fin 30) =
       storedRules
       @ [\<lparr>percentOff = Fin 30, products = [''P9''], minQty = Fin 2, discountId = Some ''d3''\<rparr>]
   \<and> length (updatedRules_create storedRules ''d3'' [''P9''] (Fin 30)) = length storedRules + 1
   \<and> normalizeDiscountIds Some (Some ''77'')
       = Inr (Some ''gid://shopify/DiscountNode/77'', Some ''gid://shopify/DiscountAutomaticApp/77'')
   \<and> updatedRules_edit storedRules (Some ''gid://shopify/DiscountNode/77'')
         (Some ''gid://shopify/DiscountAutomaticApp/77'') [''P9''] (Fin 30)
       = updatedRules_create storedRules ''gid://shopify/DiscountNode/77'' [''P9''] (Fin 30)"
proof -
  have one: "length (filter (\<lambda>rule. discountId rule = Some ''d1'') storedRules) = 1"
    by (simp add: storedRules_def)
  have none: "\<forall>rule \<in> set storedRules. discountId rule \<noteq> Some ''d3''"
    by (simp add: storedRules_def)
  have ne: "''d1'' \<noteq> []"
    by simp
  have f: "filter (\<lambda>rule. discountId rule \<noteq> Some ''d1'') storedRules =
       [\<lparr>percentOff = Fin 15, products = [''P2''], minQty = Fin 2, discountId = None\<rparr>,
        \<lparr>percentOff = Fin 20, products = [''P3''], minQty = Fin 2, discountId = Some ''d2''\<rparr>]"
    by (simp add: storedRules_def)
  have n: "normalizeDiscountIds Some (Some ''77'')
       = Inr (Some ''gid://shopify/DiscountNode/77'', Some ''gid://shopify/DiscountAutomaticApp/77'')"
    by (simp add: normalizeDiscountIds_def allDigits_def isDigitOf_def digitValue_def)
  have u: "\<not> noId (Some ''gid://shopify/DiscountAutomaticApp/77'')"
    by simp
  note T1 = reconcile_removes_match_then_appends [of storedRules "''d1''" "[''P9'']" "Fin 30"]
  note T2 = reconcile_removes_match_then_appends [of storedRules "''d3''" "[''P9'']" "Fin 30"]
  note T3 = reconcile_removes_match_then_appends [of storedRules _ "[''P9'']" "Fin 30"
      Some "Some ''77''" "Some ''gid://shopify/DiscountNode/77''"
      "Some ''gid://shopify/DiscountAutomaticApp/77''"]
  from T1 ne have "updatedRules_create storedRules ''d1'' [''P9''] (Fin 30) =
          filter (\<lambda>rule. discountId rule \<noteq> Some ''d1'') storedRules
          @ [\<lparr>percentOff = Fin 30, products = [''P9''], minQty = Fin 2, discountId = Some ''d1''\<rparr>]"
    by blast
  then have c1: "updatedRules_create storedRules ''d1'' [''P9''] (Fin 30) =
       [\<lparr>percentOff = Fin 15, products = [''P2''], minQty = Fin 2, discountId = None\<rparr>,
        \<lparr>percentOff = Fin 20, products = [''P3''], minQty = Fin 2, discountId = Some ''d2''\<rparr>,
        \<lparr>percentOff = Fin 30, products = [''P9''], minQty = Fin 2, discountId = Some ''d1''\<rparr>]"
    by (simp only: f append.simps)
  from T1 ne one have c2:
    "length (updatedRules_create storedRules ''d1'' [''P9''] (Fin 30)) = length storedRules"
    by blast
  from T2 none have c3: "updatedRules_create storedRules ''d3'' [''P9''] (Fin 30) =
       storedRules
       @ [\<lparr>percentOff = Fin 30, products = [''P9''], minQty = Fin 2, discountId = Some ''d3''\<rparr>]
     \<and> length (updatedRules_create storedRules ''d3'' [''P9''] (Fin 30)) = length storedRules + 1"
    by blast
  from T3 n u have c4: "updatedRules_edit storedRules (Some ''gid://shopify/DiscountNode/77'')
         (Some ''gid://shopify/DiscountAutomaticApp/77'') [''P9''] (Fin 30)
       = updatedRules_create storedRules ''gid://shopify/DiscountNode/77'' [''P9''] (Fin 30)"
    by auto
  from one c1 c2 c3 n c4 show ?thesis
    by blast
qed

lemma filter_other_ids:
  "filter (\<lambda>rule. (noId (discountId rule) \<or> discountId rule \<noteq> Some newId)
                    \<and> discountId rule \<noteq> Some newId) existingRules
   = filter (\<lambda>rule. discountId rule \<noteq> Some newId) existingRules"
  by (rule filter_cong [OF refl]) auto

lemma updatedRules_create_others:
  "filter (\<lambda>rule. discountId rule \<noteq> Some newId)
     (updatedRules_create existingRules newId ps p)
   = filter (\<lambda>rule. discountId rule \<noteq> Some newId) existingRules"
  by (simp add: updatedRules_create_def filter_other_ids)

lemma filter_no_id:
  "filter (\<lambda>rule. (noId (discountId rule) \<or> discountId rule \<noteq> Some newId)
                    \<and> discountId rule = None) existingRules
   = filter (\<lambda>rule. discountId rule = None) existingRules"
  by (rule filter_cong [OF refl]) auto

text \<open>
  C3. The rules whose \<^verbatim>\<open>discountId\<close> differs from the identifier being written, those
  without a \<^verbatim>\<open>discountId\<close> among them, are in \<^verbatim>\<open>updatedRules\<close> what they were in the existing
  rules: the same records in the same order, for an existing list of any length. So for
  the create action, and for the edit action with the identifiers that
  \<^verbatim>\<open>normalizeDiscountIds\<close> returns.
\<close>

theorem reconcile_keeps_other_rules:
  "filter (\<lambda>rule. discountId rule \<noteq> Some newId) (updatedRules_create existingRules newId ps p)
     = filter (\<lambda>rule. discountId rule \<noteq> Some newId) existingRules
   \<and> filter (\<lambda>rule. discountId rule = None) (updatedRules_create existingRules newId ps p)
     = filter (\<lambda>rule. discountId rule = None) existingRules
   \<and> butlast (updatedRules_create existingRules newId ps p)
     = filter (\<lambda>rule. noId (discountId rule) \<or> discountId rule \<noteq> Some newId) existingRules
   \<and> (normalizeDiscountIds decodeURIComponent rawId = Inr (discountNodeId, updateId)
        \<and> \<not> noId updateId
      \<longrightarrow> filter (\<lambda>rule. discountId rule \<noteq> discountNodeId)
              (updatedRules_edit existingRules discountNodeId updateId ps p)
            = filter (\<lambda>rule. discountId rule \<noteq> discountNodeId) existingRules
          \<and> filter (\<lambda>rule. discountId rule = None)
              (updatedRules_edit existingRules discountNodeId updateId ps p)
            = filter (\<lambda>rule. discountId rule = None) existingRules)"
proof (intro conjI impI)
  show "filter (\<lambda>rule. discountId rule \<noteq> Some newId) (updatedRules_create existingRules newId ps p)
     = filter (\<lambda>rule. discountId rule \<noteq> Some newId) existingRules"
    by (rule updatedRules_create_others)
  show n: "filter (\<lambda>rule. discountId rule = None) (updatedRules_create existingRules newId ps p)
     = filter (\<lambda>rule. discountId rule = None) existingRules" for newId
    by (simp add: updatedRules_create_def filter_no_id)
  show "butlast (updatedRules_create existingRules newId ps p)
     = filter (\<lambda>rule. noId (discountId rule) \<or> discountId rule \<noteq> Some newId) existingRules"
    by (simp add: updatedRules_create_def)
  assume "normalizeDiscountIds decodeURIComponent rawId = Inr (discountNodeId, updateId)
        \<and> \<not> noId updateId"
  then obtain d where d: "d \<noteq> []" "discountNodeId = Some d"
    using normalizeDiscountIds_nonempty by blast
  then show "filter (\<lambda>rule. discountId rule \<noteq> discountNodeId)
              (updatedRules_edit existingRules discountNodeId updateId ps p)
            = filter (\<lambda>rule. discountId rule \<noteq> discountNodeId) existingRules"
    by (simp add: updatedRules_edit_create updatedRules_create_others)
  from d show "filter (\<lambda>rule. discountId rule = None)
              (updatedRules_edit existingRules discountNodeId updateId ps p)
            = filter (\<lambda>rule. discountId rule = None) existingRules"
    by (simp add: updatedRules_edit_create n)
qed

theorem reconcile_keeps_other_rules_witness:
  "filter (\<lambda>rule. discountId rule \<noteq> Some ''d1'')
       (updatedRules_create storedRules ''d1'' [''P9''] (Fin 30))
     = [\<lparr>percentOff = Fin 15, products = [''P2''], minQty = Fin 2, discountId = None\<rparr>,
        \<lparr>percentOff = Fin 20, products = [''P3''], minQty = Fin 2, discountId = Some ''d2''\<rparr>]
   \<and> filter (\<lambda>rule. discountId rule \<noteq> Some ''d1'') (updatedRules_create [] ''d1'' [''P9''] (Fin 30))
     = []
   \<and> normalizeDiscountIds Some (Some ''gid://shopify/DiscountNode/5'')
       = Inr (Some ''gid://shopify/DiscountNode/5'', Some ''gid://shopify/DiscountNode/5'')
   \<and> filter (\<lambda>rule. discountId rule \<noteq> Some ''gid://shopify/DiscountNode/5'')
       (updatedRules_edit storedRules (Some ''gid://shopify/DiscountNode/5'')
          (Some ''gid://shopify/DiscountNode/5'') [''P9''] (Fin 30))
     = storedRules"
proof -
  have f: "filter (\<lambda>rule. discountId rule \<noteq> Some ''d1'') storedRules =
       [\<lparr>percentOff = Fin 15, products = [''P2''], minQty = Fin 2, discountId = None\<rparr>,
        \<lparr>percentOff = Fin 20, products = [''P3''], minQty = Fin 2, discountId = Some ''d2''\<rparr>]"
    by (simp add: storedRules_def)
  have g: "filter (\<lambda>rule. discountId rule \<noteq> Some ''gid://shopify/DiscountNode/5'') storedRules
             = storedRules"
    by (simp add: storedRules_def)
  have n: "normalizeDiscountIds Some (Some ''gid://shopify/DiscountNode/5'')
       = Inr (Some ''gid://shopify/DiscountNode/5'', Some ''gid://shopify/DiscountNode/5'')"
    by (simp add: normalizeDiscountIds_def sublist_code)
  have u: "\<not> noId (Some ''gid://shopify/DiscountNode/5'')"
    by simp
  note T1 = reconcile_keeps_other_rules [of "''d1''" storedRules "[''P9'']" "Fin 30"]
  note T2 = reconcile_keeps_other_rules [of "''d1''" "[]" "[''P9'']" "Fin 30"]
  note T3 = reconcile_keeps_other_rules [of "''d1''" storedRules "[''P9'']" "Fin 30" Some
      "Some ''gid://shopify/DiscountNode/5''" "Some ''gid://shopify/DiscountNode/5''"
      "Some ''gid://shopify/DiscountNode/5''"]
  from T1 have c1: "filter (\<lambda>rule. discountId rule \<noteq> Some ''d1'')
       (updatedRules_create storedRules ''d1'' [''P9''] (Fin 30))
     = [\<lparr>percentOff = Fin 15, products = [''P2''], minQty = Fin 2, discountId = None\<rparr>,
        \<lparr>percentOff = Fin 20, products = [''P3''], minQty = Fin 2, discountId = Some ''d2''\<rparr>]"
    by (simp only: f)
  from T2 have c2: "filter (\<lambda>rule. discountId rule \<noteq> Some ''d1'')
       (updatedRules_create [] ''d1'' [''P9''] (Fin 30)) = []"
    by simp
  from T3 n u have "filter (\<lambda>rule. discountId rule \<noteq> Some ''gid://shopify/DiscountNode/5'')
       (updatedRules_edit storedRules (Some ''gid://shopify/DiscountNode/5'')
          (Some ''gid://shopify/DiscountNode/5'') [''P9''] (Fin 30))
     = filter (\<lambda>rule. discountId rule \<noteq> Some ''gid://shopify/DiscountNode/5'') storedRules"
    by blast
  then have c3: "filter (\<lambda>rule. discountId rule \<noteq> Some ''gid://shopify/DiscountNode/5'')
       (updatedRules_edit storedRules (Some ''gid://shopify/DiscountNode/5'')
          (Some ''gid://shopify/DiscountNode/5'') [''P9''] (Fin 30))
     = storedRules"
    by (simp only: g)
  from c1 c2 n c3 show ?thesis
    by blast
qed

text \<open>
  C4. Writing the same rule a second time changes nothing: \<^verbatim>\<open>updatedRules\<close> computed from
  its own result, for the same identifier, products and percentage, is that result. The
  identifier is non-empty, as it is whenever an action reaches the write: the create
  action returns early on \<^verbatim>\<open>!discountId\<close>, the edit action on \<^verbatim>\<open>!updateId\<close>.
\<close>

theorem reconcile_idempotent:
  "(newId \<noteq> [] \<longrightarrow>
      updatedRules_create (updatedRules_create existingRules newId ps p) newId ps p
        = updatedRules_create existingRules newId ps p)
   \<and> (create_action JSON_parse rq = Inr (Stored rules)
      \<longrightarrow> (\<exists>existing d. d \<noteq> [] \<and> created_discountId rq = Some d
               \<and> rules = updatedRules_create existing d (form_products rq)
                     (Number_of_string
                        (trimString (case form_percentOff rq of None \<Rightarrow> [] | Some t \<Rightarrow> t)))))
   \<and> (normalizeDiscountIds decodeURIComponent rawId = Inr (discountNodeId, updateId)
        \<and> \<not> noId updateId
      \<longrightarrow> updatedRules_edit (updatedRules_edit existingRules discountNodeId updateId ps p)
              discountNodeId updateId ps p
            = updatedRules_edit existingRules discountNodeId updateId ps p)"
proof (intro conjI impI)
  show idem: "updatedRules_create (updatedRules_create existingRules d ps p) d ps p
        = updatedRules_create existingRules d ps p" if "d \<noteq> []" for d
    using that by (simp add: updatedRules_create_nonempty)
  assume "create_action JSON_parse rq = Inr (Stored rules)"
  then show "\<exists>existing d. d \<noteq> [] \<and> created_discountId rq = Some d
               \<and> rules = updatedRules_create existing d (form_products rq)
                     (Number_of_string
                        (trimString (case form_percentOff rq of None \<Rightarrow> [] | Some t \<Rightarrow> t)))"
    using create_action_stored by blast
next
  assume "normalizeDiscountIds decodeURIComponent rawId = Inr (discountNodeId, updateId)
        \<and> \<not> noId updateId"
  then obtain d where d: "d \<noteq> []" "discountNodeId = Some d"
    using normalizeDiscountIds_nonempty by blast
  then show "updatedRules_edit (updatedRules_edit existingRules discountNodeId updateId ps p)
              discountNodeId updateId ps p
            = updatedRules_edit existingRules discountNodeId updateId ps p"
    by (simp add: updatedRules_edit_create updatedRules_create_nonempty)
qed

lemma sampleRequest_created:
  "create_action JSON_parse_sample sampleRequest =
     Inr (Stored
       [\<lparr>percentOff = Fin 10, products = [''P1''], minQty = Fin 2, discountId = None\<rparr>,
        \<lparr>percentOff = Fin 15, products = [''P1''], minQty = Fin 2, discountId = Some ''d1''\<rparr>])"
  by code_simp

lemma sampleRequest_edited:
  "edit_action JSON_parse_sample Some sampleRequest =
     Inr (Stored
       [\<lparr>percentOff = Fin 10, products = [''P1''], minQty = Fin 2, discountId = None\<rparr>,
        \<lparr>percentOff = Fin 15, products = [''P1''], minQty = Fin 2,
          discountId = Some ''gid://shopify/DiscountNode/77''\<rparr>])"
  by code_simp

theorem reconcile_idempotent_witness:
  "updatedRules_create (updatedRules_create storedRules ''d1'' [''P9''] (Fin 30)) ''d1'' [''P9''] (Fin 30)
     = updatedRules_create storedRules ''d1'' [''P9''] (Fin 30)
   \<and> create_action JSON_parse_sample sampleRequest =
       Inr (Stored
         [\<lparr>percentOff = Fin 10, products = [''P1''], minQty = Fin 2, discountId = None\<rparr>,
          \<lparr>percentOff = Fin 15, products = [''P1''], minQty = Fin 2, discountId = Some ''d1''\<rparr>])
   \<and> (\<exists>existing d. d \<noteq> [] \<and> created_discountId sampleRequest = Some d
         \<and> [\<lparr>percentOff = Fin 10, products = [''P1''], minQty = Fin 2, discountId = None\<rparr>,
             \<lparr>percentOff = Fin 15, products = [''P1''], minQty = Fin 2, discountId = Some ''d1''\<rparr>]
            = updatedRules_create existing d (form_products sampleRequest)
                (Number_of_string
                   (trimString (case form_percentOff sampleRequest of None \<Rightarrow> [] | Some t \<Rightarrow> t))))
   \<and> normalizeDiscountIds Some (Some ''77'')
       = Inr (Some ''gid://shopify/DiscountNode/77'', Some ''gid://shopify/DiscountAutomaticApp/77'')
   \<and> updatedRules_edit
        (updatedRules_edit storedRules (Some ''gid://shopify/DiscountNode/77'')
           (Some ''gid://shopify/DiscountAutomaticApp/77'') [''P9''] (Fin 30))
        (Some ''gid://shopify/DiscountNode/77'') (Some ''gid://shopify/DiscountAutomaticApp/77'')
        [''P9''] (Fin 30)
     = updatedRules_edit storedRules (Some ''gid://shopify/DiscountNode/77'')
         (Some ''gid://shopify/DiscountAutomaticApp/77'') [''P9''] (Fin 30)"
proof -
  have ne: "''d1'' \<noteq> []"
    by simp
  have n: "normalizeDiscountIds Some (Some ''77'')
       = Inr (Some ''gid://shopify/DiscountNode/77'', Some ''gid://shopify/DiscountAutomaticApp/77'')"
    by (simp add: normalizeDiscountIds_def allDigits_def isDigitOf_def digitValue_def)
  have u: "\<not> noId (Some ''gid://shopify/DiscountAutomaticApp/77'')"
    by simp
  note T = reconcile_idempotent [of "''d1''" storedRules "[''P9'']" "Fin 30"
      JSON_parse_sample sampleRequest
      "[\<lparr>percentOff = Fin 10, products = [''P1''], minQty = Fin 2, discountId = None\<rparr>,
        \<lparr>percentOff = Fin 15, products = [''P1''], minQty = Fin 2, discountId = Some ''d1''\<rparr>]"
      Some "Some ''77''" "Some ''gid://shopify/DiscountNode/77''"
      "Some ''gid://shopify/DiscountAutomaticApp/77''"]
  from T ne sampleRequest_created n u show ?thesis
    by blast
qed

section \<open>Properties of the rule selection\<close>

lemma validated_Fin:
  assumes "validated rule"
  obtains p m where "percentOff rule = Fin p" "1 \<le> p" "p \<le> 80" "minQty rule = Fin m" "2 \<le> m"
proof -
  from assms obtain p where p: "percentOff rule = Fin p" "1 \<le> p" "p \<le> 80"
    using finite_in_bounds [of "percentOff rule" 1 80] by (auto simp: validated_def)
  from assms obtain m where m: "minQty rule = Fin m" "2 \<le> m"
    using finite_not_less [of "minQty rule" 2] by (auto simp: validated_def)
  from p m that show thesis by blast
qed

lemma parseRule_fn_validated: "parseRule_fn raw = Inr (Some rule) \<Longrightarrow> validated rule"
  by (auto simp: parseRule_fn_value validated_def split: if_splits jsval.splits)

lemma parseDiscountRules_validated:
  assumes "parseDiscountRules JSON_parse input = Inr rules"
  shows "list_all validated rules"
  unfolding list_all_iff
proof
  fix r assume "r \<in> set rules"
  with assms obtain v where "parseRule_fn v = Inr (Some r)"
    using parseDiscountRules_member by blast
  then show "validated r" by (rule parseRule_fn_validated)
qed

text \<open>On a validated rule the two tests of the loop are the candidate test of the specification.\<close>

lemma candidate_validated:
  assumes "validated rule"
  shows "spec_candidate line pid rule
           = (\<not> js_lt (Fin (of_int (quantity line))) (minQty rule) \<and> pid \<in> set (products rule))"
proof -
  from assms obtain p m where "percentOff rule = Fin p" "1 \<le> p" "p \<le> 80" "minQty rule = Fin m"
    by (rule validated_Fin)
  then show ?thesis
    by (auto simp: spec_candidate_def js_le_def)
qed

lemma spec_best_mem: "spec_best cs = Some r \<Longrightarrow> r \<in> set cs"
  by (induction cs arbitrary: r) (auto split: option.splits if_splits)

lemma spec_best_None: "spec_best cs = None \<longleftrightarrow> cs = []"
  by (cases cs) (auto split: option.splits)

lemma spec_best_max:
  assumes "\<forall>c \<in> set cs. isFinite (percentOff c)" "spec_best cs = Some r"
  shows "\<forall>c \<in> set cs. js_le (percentOff c) (percentOff r)"
  using assms
proof (induction cs arbitrary: r)
  case Nil
  then show ?case by simp
next
  case (Cons x xs)
  from Cons.prems(1) obtain px where px: "percentOff x = Fin px"
    by (cases "percentOff x") auto
  show ?case
  proof (cases "spec_best xs")
    case None
    then have "xs = []" by (simp add: spec_best_None)
    with Cons.prems px show ?thesis by (simp add: js_le_def)
  next
    case (Some r')
    then have "r' \<in> set xs" by (rule spec_best_mem)
    with Cons.prems(1) obtain pr' where pr': "percentOff r' = Fin pr'"
      by (cases "percentOff r'") auto
    from Cons.IH [of r'] Cons.prems(1) Some
    have ih: "\<forall>c \<in> set xs. js_le (percentOff c) (Fin pr')"
      by (simp add: pr')
    have fin: "\<forall>c \<in> set xs. \<exists>pc. percentOff c = Fin pc"
    proof
      fix c assume "c \<in> set xs"
      with Cons.prems(1) show "\<exists>pc. percentOff c = Fin pc"
        by (cases "percentOff c") auto
    qed
    show ?thesis
    proof (cases "px < pr'")
      case True
      with Cons.prems(2) Some px pr' have "r = r'" by simp
      with ih px pr' True show ?thesis by (auto simp: js_le_def)
    next
      case False
      with Cons.prems(2) Some px pr' have r: "r = x" by simp
      have "js_le (percentOff c) (Fin px)" if "c \<in> set xs" for c
      proof -
        from fin that obtain pc where pc: "percentOff c = Fin pc" by blast
        with ih that have "pc \<le> pr'" by (auto simp: js_le_def)
        with False pc show ?thesis by (auto simp: js_le_def)
      qed
      with r px show ?thesis by (auto simp: js_le_def)
    qed
  qed
qed

text \<open>The loop computes the greater of its start value and the best candidate's percentage.\<close>

lemma bestPercentLoop_spec:
  assumes "list_all validated rules"
  shows "bestPercentLoop line pid rules (Fin b) =
           (case spec_best (filter (spec_candidate line pid) rules) of
              None \<Rightarrow> Fin b
            | Some r \<Rightarrow> if js_lt (Fin b) (percentOff r) then percentOff r else Fin b)"
  using assms
proof (induction rules arbitrary: b)
  case Nil
  show ?case by simp
next
  case (Cons x xs)
  from Cons.prems have vx: "validated x" and vxs: "list_all validated xs"
    by simp_all
  from vx obtain px where px: "percentOff x = Fin px"
    by (rule validated_Fin)
  note IH = Cons.IH [OF vxs]
  note cx = candidate_validated [OF vx, of line pid]
  show ?case
  proof (cases "spec_candidate line pid x")
    case False
    with cx IH show ?thesis by auto
  next
    case True
    with cx have step: "bestPercentLoop line pid (x # xs) (Fin b)
                  = bestPercentLoop line pid xs (Fin (if b < px then px else b))"
      by (simp add: px js_gt_def)
    show ?thesis
    proof (cases "spec_best (filter (spec_candidate line pid) xs)")
      case None
      with True step IH px show ?thesis by simp
    next
      case (Some r')
      then have "r' \<in> set xs"
        using spec_best_mem by fastforce
      with vxs have "validated r'"
        by (simp add: list_all_iff)
      then obtain pr' where pr': "percentOff r' = Fin pr'"
        by (rule validated_Fin)
      with True step IH px Some show ?thesis by auto
    qed
  qed
qed

lemma bestPercent_line:
  assumes "list_all validated rules"
  shows "(js_eq (bestPercentLoop line pid rules (Fin 0)) (Fin 0)
            \<longleftrightarrow> spec_best (filter (spec_candidate line pid) rules) = None)
         \<and> (\<forall>r. spec_best (filter (spec_candidate line pid) rules) = Some r
               \<longrightarrow> bestPercentLoop line pid rules (Fin 0) = percentOff r)"
proof (cases "spec_best (filter (spec_candidate line pid) rules)")
  case None
  with bestPercentLoop_spec [OF assms, of line pid 0] show ?thesis by simp
next
  case (Some r)
  then have "r \<in> set rules"
    using spec_best_mem by fastforce
  with assms have "validated r"
    by (simp add: list_all_iff)
  then obtain p where "percentOff r = Fin p" "1 \<le> p"
    by (rule validated_Fin)
  with Some bestPercentLoop_spec [OF assms, of line pid 0] show ?thesis by simp
qed

text \<open>
  The filter keeps the lines to which the specification gives a discount, and leaves in
  \<^verbatim>\<open>linePercentMap\<close>, under the identifier of each line kept, that line's percentage, provided
  no two lines share an identifier.
\<close>

lemma filterLines_spec:
  assumes "list_all validated rules" "distinct (map line_id lines)"
  shows "fst (filterLines rules lines m) = filter (\<lambda>l. spec_lineDiscount rules l \<noteq> None) lines
       \<and> (\<forall>l \<in> set lines. spec_lineDiscount rules l \<noteq> None \<longrightarrow>
            spec_lineDiscount rules l =
              Some \<lparr>targets = [line_id l],
                    percentage = (case snd (filterLines rules lines m) (line_id l) of
                                    Some v \<Rightarrow> v | None \<Rightarrow> Fin 0)\<rparr>)
       \<and> (\<forall>k. k \<notin> line_id ` set lines \<longrightarrow> snd (filterLines rules lines m) k = m k)"
  using assms(2)
proof (induction lines arbitrary: m)
  case Nil
  show ?case by simp
next
  case (Cons line lines)
  from Cons.prems have d: "distinct (map line_id lines)" and fresh: "line_id line \<notin> line_id ` set lines"
    by auto
  note IH = Cons.IH [OF d]
  show ?case
  proof (cases "merchandise line")
    case CustomProduct
    then have none: "spec_lineDiscount rules line = None"
      by (simp add: spec_lineDiscount_def)
    from CustomProduct have step: "filterLines rules (line # lines) m = filterLines rules lines m"
      by simp
    from IH [of m] none show ?thesis
      unfolding step by auto
  next
    case (ProductVariant pid)
    note bp = bestPercent_line [OF assms(1), of line pid]
    show ?thesis
    proof (cases "spec_best (filter (spec_candidate line pid) rules)")
      case None
      with ProductVariant have none: "spec_lineDiscount rules line = None"
        by (simp add: spec_lineDiscount_def)
      from None bp ProductVariant
      have step: "filterLines rules (line # lines) m = filterLines rules lines m"
        by simp
      from IH [of m] none show ?thesis
        unfolding step by auto
    next
      case (Some r)
      with bp have best: "bestPercentLoop line pid rules (Fin 0) = percentOff r"
        and nz: "\<not> js_eq (bestPercentLoop line pid rules (Fin 0)) (Fin 0)"
        by auto
      from Some ProductVariant
      have some: "spec_lineDiscount rules line
                    = Some \<lparr>targets = [line_id line], percentage = percentOff r\<rparr>"
        by (simp add: spec_lineDiscount_def)
      let ?m = "m(line_id line \<mapsto> percentOff r)"
      from ProductVariant best nz
      have step: "filterLines rules (line # lines) m
                    = (line # fst (filterLines rules lines ?m), snd (filterLines rules lines ?m))"
        by (simp add: Let_def split_beta)
      from IH [of ?m]
      have ih1: "fst (filterLines rules lines ?m)
                   = filter (\<lambda>l. spec_lineDiscount rules l \<noteq> None) lines"
        and ih2: "\<And>l. l \<in> set lines \<Longrightarrow> spec_lineDiscount rules l \<noteq> None \<Longrightarrow>
            spec_lineDiscount rules l =
              Some \<lparr>targets = [line_id l],
                    percentage = (case snd (filterLines rules lines ?m) (line_id l) of
                                    Some v \<Rightarrow> v | None \<Rightarrow> Fin 0)\<rparr>"
        and ih3: "\<And>k. k \<notin> line_id ` set lines \<Longrightarrow> snd (filterLines rules lines ?m) k = ?m k"
        by blast+
      have here: "snd (filterLines rules lines ?m) (line_id line) = Some (percentOff r)"
        using ih3 [OF fresh] by (simp only: fun_upd_same)
      have other: "snd (filterLines rules lines ?m) k = m k"
        if "k \<notin> line_id ` set (line # lines)" for k
      proof -
        from that have "k \<notin> line_id ` set lines" "k \<noteq> line_id line"
          by auto
        with ih3 [of k] show ?thesis
          by simp
      qed
      show ?thesis
        unfolding step fst_conv snd_conv
      proof (intro conjI ballI allI impI)
        show "line # fst (filterLines rules lines ?m)
                = filter (\<lambda>l. spec_lineDiscount rules l \<noteq> None) (line # lines)"
          using ih1 some by simp
      next
        fix l assume l: "l \<in> set (line # lines)" "spec_lineDiscount rules l \<noteq> None"
        show "spec_lineDiscount rules l =
              Some \<lparr>targets = [line_id l],
                    percentage = (case snd (filterLines rules lines ?m) (line_id l) of
                                    Some v \<Rightarrow> v | None \<Rightarrow> Fin 0)\<rparr>"
        proof (cases "l = line")
          case True
          with some here show ?thesis by simp
        next
          case False
          with l have "l \<in> set lines" by simp
          then show ?thesis using l(2) by (rule ih2)
        qed
      next
        fix k assume "k \<notin> line_id ` set (line # lines)"
        then show "snd (filterLines rules lines ?m) k = m k"
          by (rule other)
      qed
    qed
  qed
qed

lemma discountCandidates_spec:
  assumes "list_all validated rules" "distinct (map line_id lines)"
  shows "discountCandidates rules lines = spec_selectDiscounts rules lines"
proof -
  note F = filterLines_spec [OF assms, of Map.empty]
  have "discountCandidates rules lines =
          map (\<lambda>line. \<lparr>targets = [line_id line],
                         percentage = (case snd (filterLines rules lines Map.empty) (line_id line) of
                                         Some v \<Rightarrow> v | None \<Rightarrow> Fin 0)\<rparr>)
            (filter (\<lambda>l. spec_lineDiscount rules l \<noteq> None) lines)"
    using F by (simp add: discountCandidates_def split_beta)
  also have "\<dots> = map (the \<circ> spec_lineDiscount rules)
                     (filter (\<lambda>l. spec_lineDiscount rules l \<noteq> None) lines)"
  proof (rule map_cong [OF refl])
    fix l assume "l \<in> set (filter (\<lambda>l. spec_lineDiscount rules l \<noteq> None) lines)"
    then have "l \<in> set lines" "spec_lineDiscount rules l \<noteq> None"
      by simp_all
    with F have "spec_lineDiscount rules l =
              Some \<lparr>targets = [line_id l],
                    percentage = (case snd (filterLines rules lines Map.empty) (line_id l) of
                                    Some v \<Rightarrow> v | None \<Rightarrow> Fin 0)\<rparr>"
      by blast
    then show "\<lparr>targets = [line_id l],
                 percentage = (case snd (filterLines rules lines Map.empty) (line_id l) of
                                 Some v \<Rightarrow> v | None \<Rightarrow> Fin 0)\<rparr>
               = (the \<circ> spec_lineDiscount rules) l"
      by simp
  qed
  also have "\<dots> = spec_selectDiscounts rules lines"
    by (simp add: spec_selectDiscounts_def List.map_filter_def)
  finally show ?thesis .
qed

lemma spec_selectDiscounts_no_rules: "spec_selectDiscounts [] lines = []"
  by (simp add: spec_selectDiscounts_def List.map_filter_def spec_lineDiscount_def
      split: Merchandise.splits)

lemma example_rules_validated: "list_all validated [ruleA, ruleB]"
  by (simp add: validated_def ruleA_def ruleB_def js_gt_def)

lemma example_candidates:
  "discountCandidates [ruleA, ruleB] [lineP1 3] = [\<lparr>targets = [''L1''], percentage = Fin 25\<rparr>]"
  "discountCandidates [ruleA, ruleB] [lineP1 2] = [\<lparr>targets = [''L1''], percentage = Fin 10\<rparr>]"
  "discountCandidates [ruleA, ruleB] [lineP1 1] = []"
  by (simp_all add: discountCandidates_def ruleA_def ruleB_def lineP1_def js_gt_def)

text \<open>Which lines the filter keeps does not depend on the identifiers of the lines.\<close>

lemma filterLines_kept:
  assumes "list_all validated rules"
  shows "fst (filterLines rules lines m) = filter (\<lambda>l. spec_lineDiscount rules l \<noteq> None) lines"
proof (induction lines arbitrary: m)
  case Nil
  show ?case by simp
next
  case (Cons line lines)
  show ?case
  proof (cases "merchandise line")
    case CustomProduct
    then show ?thesis
      by (simp add: Cons.IH spec_lineDiscount_def)
  next
    case (ProductVariant pid)
    note bp = bestPercent_line [OF assms, of line pid]
    show ?thesis
    proof (cases "spec_best (filter (spec_candidate line pid) rules)")
      case None
      with bp ProductVariant show ?thesis
        by (simp add: Cons.IH spec_lineDiscount_def)
    next
      case (Some r)
      with bp have "\<not> js_eq (bestPercentLoop line pid rules (Fin 0)) (Fin 0)"
        by auto
      with Some ProductVariant show ?thesis
        by (simp add: Cons.IH spec_lineDiscount_def Let_def split_beta)
    qed
  qed
qed

lemma spec_lineDiscount_targets:
  "spec_lineDiscount rules l = Some c \<Longrightarrow> targets c = [line_id l]"
  by (auto simp: spec_lineDiscount_def split: Merchandise.splits option.splits)

lemma discountCandidates_targets:
  assumes "list_all validated rules"
  shows "map targets (discountCandidates rules lines)
           = map targets (spec_selectDiscounts rules lines)"
proof -
  have "map targets (discountCandidates rules lines)
          = map (\<lambda>l. [line_id l]) (filter (\<lambda>l. spec_lineDiscount rules l \<noteq> None) lines)"
    using filterLines_kept [OF assms, of lines Map.empty]
    by (simp add: discountCandidates_def split_beta comp_def)
  also have "\<dots> = map (\<lambda>l. targets (the (spec_lineDiscount rules l)))
                     (filter (\<lambda>l. spec_lineDiscount rules l \<noteq> None) lines)"
    by (rule map_cong [OF refl]) (auto simp: spec_lineDiscount_targets)
  also have "\<dots> = map targets (spec_selectDiscounts rules lines)"
    by (simp add: spec_selectDiscounts_def List.map_filter_def comp_def)
  finally show ?thesis .
qed

text \<open>
  C1 (as amended). For validated rules and a cart whose lines have distinct identifiers,
  the candidates that \<^verbatim>\<open>cartLinesDiscountsGenerateRun\<close> builds are those of the specification:
  one per line that has a product and at least one candidate rule (\<^verbatim>\<open>minQty <= quantity\<close>,
  the product among \<^verbatim>\<open>products\<close>, \<^verbatim>\<open>percentOff\<close> finite within \<open>[1, 80]\<close>), carrying the
  percentage of the chosen rule, which is a candidate whose percentage no candidate exceeds
  (the first such in rule order; only the value is emitted); no candidate for a line with
  no product or no candidate rule. The run on a cart input returns these candidates in one
  operation, or no operation when there is none. For rule A (10 percent from 2) and rule B
  (25 percent from 3) on \<^verbatim>\<open>P1\<close>, a \<^verbatim>\<open>P1\<close> line gets 25 for quantity 3, 10 for quantity 2,
  nothing for quantity 1. Whatever the identifiers, the lines that get a candidate are
  those to which the specification gives one, in cart order.
\<close>

theorem selector_emits_best_candidate:
  "(list_all validated rules \<and> distinct (map line_id lines)
      \<longrightarrow> discountCandidates rules lines = spec_selectDiscounts rules lines)
   \<and> (list_all validated rules
        \<and> spec_best (filter (spec_candidate line pid) rules) = Some r
      \<longrightarrow> r \<in> set rules \<and> spec_candidate line pid r
          \<and> (\<forall>c \<in> set rules. spec_candidate line pid c
                \<longrightarrow> js_le (percentOff c) (percentOff r)))
   \<and> (spec_best (filter (spec_candidate line pid) rules) = None
      \<longrightarrow> (\<forall>c \<in> set rules. \<not> spec_candidate line pid c))
   \<and> (parseDiscountRules JSON_parse input = Inr rules \<and> distinct (map line_id (cart_lines input))
      \<longrightarrow> list_all validated rules
          \<and> cartLinesDiscountsGenerateRun JSON_parse input =
              Inr \<lparr>operations =
                     (if spec_selectDiscounts rules (cart_lines input) = [] then []
                      else [ProductDiscountsAdd StrategyAll
                              (spec_selectDiscounts rules (cart_lines input))])\<rparr>)
   \<and> discountCandidates [ruleA, ruleB] [lineP1 3] = [\<lparr>targets = [''L1''], percentage = Fin 25\<rparr>]
   \<and> discountCandidates [ruleA, ruleB] [lineP1 2] = [\<lparr>targets = [''L1''], percentage = Fin 10\<rparr>]
   \<and> discountCandidates [ruleA, ruleB] [lineP1 1] = []
   \<and> (list_all validated rules
      \<longrightarrow> map targets (discountCandidates rules lines)
            = map targets (spec_selectDiscounts rules lines))"
proof (intro conjI impI)
  assume "list_all validated rules \<and> distinct (map line_id lines)"
  then show "discountCandidates rules lines = spec_selectDiscounts rules lines"
    by (simp add: discountCandidates_spec)
next
  assume h: "list_all validated rules
        \<and> spec_best (filter (spec_candidate line pid) rules) = Some r"
  then have m: "r \<in> set (filter (spec_candidate line pid) rules)"
    using spec_best_mem by blast
  then show "r \<in> set rules" and "spec_candidate line pid r"
    by simp_all
  have "\<forall>c \<in> set (filter (spec_candidate line pid) rules). isFinite (percentOff c)"
    by (simp add: spec_candidate_def)
  with h have "\<forall>c \<in> set (filter (spec_candidate line pid) rules).
                 js_le (percentOff c) (percentOff r)"
    using spec_best_max by blast
  then show "\<forall>c \<in> set rules. spec_candidate line pid c \<longrightarrow> js_le (percentOff c) (percentOff r)"
    by simp
next
  assume "spec_best (filter (spec_candidate line pid) rules) = None"
  then have "filter (spec_candidate line pid) rules = []"
    by (simp add: spec_best_None)
  then show "\<forall>c \<in> set rules. \<not> spec_candidate line pid c"
    by (simp add: filter_empty_conv)
next
  assume h: "parseDiscountRules JSON_parse input = Inr rules
               \<and> distinct (map line_id (cart_lines input))"
  then show v: "list_all validated rules"
    using parseDiscountRules_validated by blast
  show "cartLinesDiscountsGenerateRun JSON_parse input =
              Inr \<lparr>operations =
                     (if spec_selectDiscounts rules (cart_lines input) = [] then []
                      else [ProductDiscountsAdd StrategyAll
                              (spec_selectDiscounts rules (cart_lines input))])\<rparr>"
  proof (cases "rules = []")
    case True
    with h show ?thesis
      by (simp add: cartLinesDiscountsGenerateRun_def spec_selectDiscounts_no_rules)
  next
    case False
    with h v show ?thesis
      by (simp add: cartLinesDiscountsGenerateRun_def discountCandidates_spec Let_def)
  qed
next
  show "discountCandidates [ruleA, ruleB] [lineP1 3] = [\<lparr>targets = [''L1''], percentage = Fin 25\<rparr>]"
    and "discountCandidates [ruleA, ruleB] [lineP1 2] = [\<lparr>targets = [''L1''], percentage = Fin 10\<rparr>]"
    and "discountCandidates [ruleA, ruleB] [lineP1 1] = []"
    by (rule example_candidates)+
next
  assume "list_all validated rules"
  then show "map targets (discountCandidates rules lines)
            = map targets (spec_selectDiscounts rules lines)"
    by (rule discountCandidates_targets)
qed

theorem selector_emits_best_candidate_witness:
  "list_all validated [ruleA, ruleB]
   \<and> distinct (map line_id [lineP1 3])
   \<and> discountCandidates [ruleA, ruleB] [lineP1 3] = spec_selectDiscounts [ruleA, ruleB] [lineP1 3]
   \<and> spec_best (filter (spec_candidate (lineP1 3) ''P1'') [ruleA, ruleB]) = Some ruleB
   \<and> spec_candidate (lineP1 3) ''P1'' ruleA
   \<and> js_le (percentOff ruleA) (percentOff ruleB)
   \<and> spec_best (filter (spec_candidate (lineP1 1) ''P1'') [ruleA, ruleB]) = None
   \<and> \<not> spec_candidate (lineP1 1) ''P1'' ruleA
   \<and> parseDiscountRules JSON_parse_sample
        (shopWith (JObj [(''rules'', JArr [ruleA_json, ruleB_json])]) [lineP1 3])
       = Inr [ruleA, ruleB]
   \<and> spec_selectDiscounts [ruleA, ruleB] [lineP1 3] = [\<lparr>targets = [''L1''], percentage = Fin 25\<rparr>]
   \<and> map targets (discountCandidates [ruleA, ruleB] [lineP1 3])
       = map targets (spec_selectDiscounts [ruleA, ruleB] [lineP1 3])
   \<and> cartLinesDiscountsGenerateRun JSON_parse_sample
        (shopWith (JObj [(''rules'', JArr [ruleA_json, ruleB_json])]) [lineP1 3])
       = Inr \<lparr>operations =
               [ProductDiscountsAdd StrategyAll [\<lparr>targets = [''L1''], percentage = Fin 25\<rparr>]]\<rparr>"
proof -
  have d: "distinct (map line_id [lineP1 3])"
    by simp
  have b3: "spec_best (filter (spec_candidate (lineP1 3) ''P1'') [ruleA, ruleB]) = Some ruleB"
    by (simp add: spec_candidate_def js_le_def ruleA_def ruleB_def lineP1_def)
  have cA: "spec_candidate (lineP1 3) ''P1'' ruleA"
    by (simp add: spec_candidate_def js_le_def ruleA_def lineP1_def)
  have b1: "spec_best (filter (spec_candidate (lineP1 1) ''P1'') [ruleA, ruleB]) = None"
    by (simp add: spec_candidate_def js_le_def ruleA_def ruleB_def lineP1_def)
  have p: "parseDiscountRules JSON_parse_sample
        (shopWith (JObj [(''rules'', JArr [ruleA_json, ruleB_json])]) [lineP1 3])
       = Inr [ruleA, ruleB]"
    by (simp add: parseDiscountRules_def parseRulesWith_def decodedValue_def parseRule_fn_def
        ruleA_json_def ruleB_json_def shopWith_def jsonValue_of_def ruleA_def ruleB_def js_gt_def)
  have c: "cart_lines (shopWith (JObj [(''rules'', JArr [ruleA_json, ruleB_json])]) [lineP1 3])
             = [lineP1 3]"
    by (simp add: shopWith_def)
  have s: "spec_selectDiscounts [ruleA, ruleB] [lineP1 3]
             = [\<lparr>targets = [''L1''], percentage = Fin 25\<rparr>]"
  proof -
    have m: "merchandise (lineP1 3) = ProductVariant ''P1''" "line_id (lineP1 3) = ''L1''"
      by (simp_all add: lineP1_def)
    have pB: "percentOff ruleB = Fin 25"
      by (simp add: ruleB_def)
    have "spec_lineDiscount [ruleA, ruleB] (lineP1 3)
            = Some \<lparr>targets = [''L1''], percentage = Fin 25\<rparr>"
      by (simp only: spec_lineDiscount_def m Merchandise.case b3 option.case pB)
    then show ?thesis
      by (simp add: spec_selectDiscounts_def List.map_filter_def)
  qed
  note T3 = selector_emits_best_candidate [of "[ruleA, ruleB]" "[lineP1 3]" "lineP1 3" "''P1''"
      ruleB JSON_parse_sample
      "shopWith (JObj [(''rules'', JArr [ruleA_json, ruleB_json])]) [lineP1 3]"]
  note T1 = selector_emits_best_candidate [of "[ruleA, ruleB]" "[lineP1 1]" "lineP1 1" "''P1''"]
  note refine = T3 [THEN conjunct1]
  note maxim = T3 [THEN conjunct2, THEN conjunct1]
  note no_cand = T1 [THEN conjunct2, THEN conjunct2, THEN conjunct1]
  note whole = T3 [THEN conjunct2, THEN conjunct2, THEN conjunct2, THEN conjunct1]
  note kept = T3 [THEN conjunct2, THEN conjunct2, THEN conjunct2, THEN conjunct2,
      THEN conjunct2, THEN conjunct2, THEN conjunct2]
  from kept example_rules_validated have e5:
    "map targets (discountCandidates [ruleA, ruleB] [lineP1 3])
       = map targets (spec_selectDiscounts [ruleA, ruleB] [lineP1 3])"
    by blast
  from refine example_rules_validated d have e1:
    "discountCandidates [ruleA, ruleB] [lineP1 3] = spec_selectDiscounts [ruleA, ruleB] [lineP1 3]"
    by blast
  have "ruleA \<in> set [ruleA, ruleB]"
    by simp
  with maxim example_rules_validated b3 cA have e2: "js_le (percentOff ruleA) (percentOff ruleB)"
    by blast
  have "ruleA \<in> set [ruleA, ruleB]"
    by simp
  with no_cand b1 have e3: "\<not> spec_candidate (lineP1 1) ''P1'' ruleA"
    by blast
  from whole p d have "cartLinesDiscountsGenerateRun JSON_parse_sample
        (shopWith (JObj [(''rules'', JArr [ruleA_json, ruleB_json])]) [lineP1 3])
       = Inr \<lparr>operations =
               (if spec_selectDiscounts [ruleA, ruleB] [lineP1 3] = [] then []
                else [ProductDiscountsAdd StrategyAll
                        (spec_selectDiscounts [ruleA, ruleB] [lineP1 3])])\<rparr>"
    unfolding c by blast
  then have e4: "cartLinesDiscountsGenerateRun JSON_parse_sample
        (shopWith (JObj [(''rules'', JArr [ruleA_json, ruleB_json])]) [lineP1 3])
       = Inr \<lparr>operations =
               [ProductDiscountsAdd StrategyAll [\<lparr>targets = [''L1''], percentage = Fin 25\<rparr>]]\<rparr>"
    by (simp add: s)
  from example_rules_validated d e1 b3 cA e2 b1 e3 p s e5 e4 show ?thesis
    by blast
qed

text \<open>
  The claim as first stated fails for a cart in which two lines share an identifier: the
  percentage reaches the output through \<^verbatim>\<open>linePercentMap\<close>, keyed by \<^verbatim>\<open>line.id\<close> and read after
  the whole filter has run, so both lines get the percentage stored last. With rules A
  and B, a line of quantity 3 followed by a line of quantity 2 under the same identifier
  gets 10, not 25.
\<close>

theorem selector_shared_line_id_counterexample:
  "list_all validated [ruleA, ruleB]
   \<and> discountCandidates [ruleA, ruleB]
        [\<lparr>line_id = ''L1'', quantity = 3, merchandise = ProductVariant ''P1''\<rparr>,
         \<lparr>line_id = ''L1'', quantity = 2, merchandise = ProductVariant ''P1''\<rparr>]
       = [\<lparr>targets = [''L1''], percentage = Fin 10\<rparr>,
          \<lparr>targets = [''L1''], percentage = Fin 10\<rparr>]
   \<and> spec_selectDiscounts [ruleA, ruleB]
        [\<lparr>line_id = ''L1'', quantity = 3, merchandise = ProductVariant ''P1''\<rparr>,
         \<lparr>line_id = ''L1'', quantity = 2, merchandise = ProductVariant ''P1''\<rparr>]
       = [\<lparr>targets = [''L1''], percentage = Fin 25\<rparr>,
          \<lparr>targets = [''L1''], percentage = Fin 10\<rparr>]
   \<and> cartLinesDiscountsGenerateRun JSON_parse_sample
        (shopWith (JObj [(''rules'', JArr [ruleA_json, ruleB_json])])
           [\<lparr>line_id = ''L1'', quantity = 3, merchandise = ProductVariant ''P1''\<rparr>,
            \<lparr>line_id = ''L1'', quantity = 2, merchandise = ProductVariant ''P1''\<rparr>])
       = Inr \<lparr>operations =
               [ProductDiscountsAdd StrategyAll
                  [\<lparr>targets = [''L1''], percentage = Fin 10\<rparr>,
                   \<lparr>targets = [''L1''], percentage = Fin 10\<rparr>]]\<rparr>"
proof (intro conjI)
  show "list_all validated [ruleA, ruleB]"
    by (rule example_rules_validated)
  show c: "discountCandidates [ruleA, ruleB]
        [\<lparr>line_id = ''L1'', quantity = 3, merchandise = ProductVariant ''P1''\<rparr>,
         \<lparr>line_id = ''L1'', quantity = 2, merchandise = ProductVariant ''P1''\<rparr>]
       = [\<lparr>targets = [''L1''], percentage = Fin 10\<rparr>,
          \<lparr>targets = [''L1''], percentage = Fin 10\<rparr>]"
    by (simp add: discountCandidates_def ruleA_def ruleB_def js_gt_def)
  show "spec_selectDiscounts [ruleA, ruleB]
        [\<lparr>line_id = ''L1'', quantity = 3, merchandise = ProductVariant ''P1''\<rparr>,
         \<lparr>line_id = ''L1'', quantity = 2, merchandise = ProductVariant ''P1''\<rparr>]
       = [\<lparr>targets = [''L1''], percentage = Fin 25\<rparr>,
          \<lparr>targets = [''L1''], percentage = Fin 10\<rparr>]"
    by (simp add: spec_selectDiscounts_def List.map_filter_def spec_lineDiscount_def
        spec_candidate_def js_le_def ruleA_def ruleB_def)
  have cl: "cart_lines (shopWith v ls) = ls" for v ls
    by (simp add: shopWith_def)
  have p: "parseDiscountRules JSON_parse_sample
        (shopWith (JObj [(''rules'', JArr [ruleA_json, ruleB_json])])
           [\<lparr>line_id = ''L1'', quantity = 3, merchandise = ProductVariant ''P1''\<rparr>,
            \<lparr>line_id = ''L1'', quantity = 2, merchandise = ProductVariant ''P1''\<rparr>])
       = Inr [ruleA, ruleB]"
    by (simp add: parseDiscountRules_def parseRulesWith_def decodedValue_def parseRule_fn_def
        ruleA_json_def ruleB_json_def shopWith_def jsonValue_of_def ruleA_def ruleB_def js_gt_def)
  show "cartLinesDiscountsGenerateRun JSON_parse_sample
        (shopWith (JObj [(''rules'', JArr [ruleA_json, ruleB_json])])
           [\<lparr>line_id = ''L1'', quantity = 3, merchandise = ProductVariant ''P1''\<rparr>,
            \<lparr>line_id = ''L1'', quantity = 2, merchandise = ProductVariant ''P1''\<rparr>])
       = Inr \<lparr>operations =
               [ProductDiscountsAdd StrategyAll
                  [\<lparr>targets = [''L1''], percentage = Fin 10\<rparr>,
                   \<lparr>targets = [''L1''], percentage = Fin 10\<rparr>]]\<rparr>"
    by (simp add: cartLinesDiscountsGenerateRun_def p cl c)
qed

section \<open>Numeric strings\<close>

text \<open>
  \<^verbatim>\<open>Number\<close> on some strings, and the admin validator on a rule whose numbers are written
  as strings.
\<close>

lemma Number_of_string_examples:
  "Number_of_string ''0.5'' = Fin (1 / 2)"
  "Number_of_string ''90'' = Fin 90"
  "Number_of_string ''-5'' = Fin (- 5)"
  "Number_of_string ''ten'' = NaN"
  "Number_of_string ''12px'' = NaN"
  by code_simp+

lemma parseRule_numeric_strings:
  "parseRule (JObj [(''percentOff'', JStr ''0.5''), (''products'', JArr [JStr ''P1'']),
                    (''minQty'', JStr ''2'')])
     = Inr (Some \<lparr>percentOff = Fin (1 / 2), products = [''P1''], minQty = Fin 2,
                  discountId = None\<rparr>)"
  by (simp add: parseRule_def Number_of_string_examples(1))
    (code_simp)

end
